theory Spec2Isabelle
  imports Complex_Main
begin

section \<open>Bookmark rendering engine: shallow embedding of \<^verbatim>\<open>bookmark_generator.py\<close>\<close>

text \<open>
  The development follows \<^verbatim>\<open>backend/app/services/bookmark_generator.py\<close> and
  \<^verbatim>\<open>backend/app/core/config.py\<close>.

  Conventions of the embedding:
  \<^item> a Python \<^verbatim>\<open>str\<close> holding free text is a list of code points (\<open>codepoint list\<close>),
    so that \<open>length\<close> is Python's \<^verbatim>\<open>len\<close>; a colour such as \<^verbatim>\<open>"#F5F5DC"\<close> is a
    \<open>string\<close> of ASCII characters;
  \<^item> Python's unbounded \<^verbatim>\<open>int\<close> is \<open>int\<close>; \<^verbatim>\<open>int(x)\<close> on a float truncates towards zero;
  \<^item> the floats of the millimetre conversion in \<^verbatim>\<open>config.py\<close>, whose integer part depends on
    rounding, are IEEE 754 binary64 values (\<open>py_float\<close>) and every operation on them
    rounds to nearest, ties to even; the ratios of \<^verbatim>\<open>_interpolate_color\<close> and
    \<^verbatim>\<open>_fit_image_to_zone\<close> are rationals (\<open>rat\<close>);
  \<^item> every exception the modelled code can raise is a value \<open>Inl e\<close> of a sum type;
  \<^item> a Pillow image is the symbolic term of the operations that produced it; its size is
    computed from the term the way Pillow computes it.
\<close>

subsection \<open>Python values and exceptions\<close>

type_synonym codepoint = nat

datatype py_error =
    IndexError
  | ValueError
  | ZeroDivisionError
  | FileNotFoundError
  | UnidentifiedImageError
  | OSError
  | OverflowError

definition bind :: "py_error + 'a \<Rightarrow> ('a \<Rightarrow> py_error + 'b) \<Rightarrow> py_error + 'b" where
  "bind m f = (case m of Inl e \<Rightarrow> Inl e | Inr v \<Rightarrow> f v)"

text \<open>\<^verbatim>\<open>xs[i]\<close>: a negative index counts from the end, an index out of range raises.\<close>

definition py_index :: "'a list \<Rightarrow> int \<Rightarrow> py_error + 'a" where
  "py_index xs i =
     (if 0 \<le> i \<and> i < int (length xs) then Inr (xs ! nat i)
      else if i < 0 \<and> - int (length xs) \<le> i then Inr (xs ! nat (int (length xs) + i))
      else Inl IndexError)"

text \<open>\<^verbatim>\<open>int(x)\<close> for a float \<open>x\<close>: truncation towards zero.\<close>

definition py_int :: "rat \<Rightarrow> int" where
  "py_int x = (if 0 \<le> x then \<lfloor>x\<rfloor> else \<lceil>x\<rceil>)"

text \<open>\<^verbatim>\<open>a / b\<close> on two integers: true division, raising on a zero divisor.\<close>

definition py_truediv :: "int \<Rightarrow> int \<Rightarrow> py_error + rat" where
  "py_truediv a b = (if b = 0 then Inl ZeroDivisionError else Inr (of_int a / of_int b))"

subsection \<open>Greedy line wrapping (\<^verbatim>\<open>_wrap_text_lines\<close>)\<close>

text \<open>
  \<^verbatim>\<open>draw.textbbox((0, 0), s, font=font)\<close> is a call into Pillow; the wrapping code uses only
  \<^verbatim>\<open>bbox[2] - bbox[0]\<close>. The measured width of a string under the current font is therefore
  a parameter \<open>textwidth\<close> of the model, about which nothing is assumed.

  The loop over the characters keeps the two locals \<^verbatim>\<open>lines\<close> and \<^verbatim>\<open>current_line\<close>.
\<close>

fun wrap_loop ::
  "(codepoint list \<Rightarrow> int) \<Rightarrow> int \<Rightarrow> codepoint list list \<Rightarrow> codepoint list \<Rightarrow> codepoint list
     \<Rightarrow> codepoint list list \<times> codepoint list" where
  "wrap_loop textwidth max_width lines current_line [] = (lines, current_line)"
| "wrap_loop textwidth max_width lines current_line (char # rest) =
     (let test_line = current_line @ [char];
          width = textwidth test_line
      in if width \<le> max_width
         then wrap_loop textwidth max_width lines test_line rest
         else wrap_loop textwidth max_width
                (if current_line \<noteq> [] then lines @ [current_line] else lines) [char] rest)"

definition wrap_text_lines ::
  "(codepoint list \<Rightarrow> int) \<Rightarrow> codepoint list \<Rightarrow> int \<Rightarrow> codepoint list list" where
  "wrap_text_lines textwidth text max_width =
     (case wrap_loop textwidth max_width [] [] text of
        (lines, current_line) \<Rightarrow>
          if current_line \<noteq> [] then lines @ [current_line] else lines)"

subsection \<open>Colours (\<^verbatim>\<open>_hex_to_rgb\<close>, \<^verbatim>\<open>_interpolate_color\<close>)\<close>

definition hex_digit :: "char \<Rightarrow> int option" where
  "hex_digit c =
     (let n = (of_char c :: nat)
      in if 48 \<le> n \<and> n \<le> 57 then Some (int n - 48)
         else if 65 \<le> n \<and> n \<le> 70 then Some (int n - 55)
         else if 97 \<le> n \<and> n \<le> 102 then Some (int n - 87)
         else None)"

fun hex_value :: "int \<Rightarrow> string \<Rightarrow> int option" where
  "hex_value acc [] = Some acc"
| "hex_value acc (c # cs) =
     (case hex_digit c of None \<Rightarrow> None | Some d \<Rightarrow> hex_value (16 * acc + d) cs)"

text \<open>
  \<^verbatim>\<open>int(s, 16)\<close> as \<^verbatim>\<open>_hex_to_rgb\<close> calls it, on a slice \<open>s\<close> of at most two characters. A
  slice of hexadecimal digits has its value; the empty slice raises \<^verbatim>\<open>ValueError\<close>. Every
  other slice is reported as \<^verbatim>\<open>ValueError\<close> here; Python's parser also accepts a sign or
  blanks around one digit, which no 6-hex-digit colour contains.
\<close>

definition int_base16 :: "string \<Rightarrow> py_error + int" where
  "int_base16 s =
     (if s = [] then Inl ValueError
      else case hex_value 0 s of None \<Rightarrow> Inl ValueError | Some v \<Rightarrow> Inr v)"

text \<open>\<^verbatim>\<open>xs[i:j]\<close> with step 1: bounds are clipped, negative bounds count from the end.\<close>

definition slice_bound :: "nat \<Rightarrow> int \<Rightarrow> nat" where
  "slice_bound n i = (if i < 0 then nat (max 0 (int n + i)) else min n (nat i))"

definition py_slice :: "'a list \<Rightarrow> int \<Rightarrow> int \<Rightarrow> 'a list" where
  "py_slice xs i j =
     (let a = slice_bound (length xs) i; b = slice_bound (length xs) j
      in take (b - a) (drop a xs))"

definition hex_to_rgb :: "string \<Rightarrow> py_error + (int \<times> int \<times> int)" where
  "hex_to_rgb hex_color0 =
     (let hex_color = dropWhile (\<lambda>c. c = CHR ''#'') hex_color0
      in bind (int_base16 (py_slice hex_color 0 2)) (\<lambda>r.
         bind (int_base16 (py_slice hex_color 2 4)) (\<lambda>g.
         bind (int_base16 (py_slice hex_color 4 6)) (\<lambda>b.
         Inr (r, g, b)))))"

text \<open>
  A valid palette colour, as the request schema validates it
  (\<^verbatim>\<open>^#[0-9A-Fa-f]{6}$\<close>).
\<close>

definition valid_hex_color :: "string \<Rightarrow> bool" where
  "valid_hex_color s =
     (case s of
        [] \<Rightarrow> False
      | c # ds \<Rightarrow> c = CHR ''#'' \<and> length ds = 6 \<and> list_all (\<lambda>d. hex_digit d \<noteq> None) ds)"

definition interpolate_color :: "string list \<Rightarrow> rat \<Rightarrow> py_error + (int \<times> int \<times> int)" where
  "interpolate_color colors ratio0 =
     (let ratio = max 0 (min 1 ratio0)
      in if length colors = 1 then bind (py_index colors 0) hex_to_rgb
         else
           let num_segments = int (length colors) - 1;
               segment = ratio * of_int num_segments;
               idx = py_int segment;
               local_ratio = segment - of_int idx
           in bind (bind (py_index colors idx) hex_to_rgb) (\<lambda>color1.
              bind (bind (py_index colors (min (idx + 1) (int (length colors) - 1))) hex_to_rgb)
                (\<lambda>color2.
                   case (color1, color2) of ((r1, g1, b1), (r2, g2, b2)) \<Rightarrow>
                     Inr (py_int (of_int r1 + (of_int r2 - of_int r1) * local_ratio),
                          py_int (of_int g1 + (of_int g2 - of_int g1) * local_ratio),
                          py_int (of_int b1 + (of_int b2 - of_int b1) * local_ratio)))))"

subsection \<open>The drawing surface\<close>

text \<open>
  An \<^verbatim>\<open>ImageDraw\<close> call is recorded as a command with the arguments the code passes:
  \<^verbatim>\<open>rectangle([p, q], fill, outline, width)\<close>, \<^verbatim>\<open>line(points, fill, width)\<close>,
  \<^verbatim>\<open>ellipse([p, q], fill)\<close> and \<^verbatim>\<open>text(p, s, fill, font)\<close>, a font being given by its pixel
  size. A log call is recorded with its level and the values it formats.
\<close>

datatype draw_op =
    Rectangle "int \<times> int" "int \<times> int" "string option" "string option" int
  | Line "(int \<times> int) list" string int
  | Ellipse "int \<times> int" "int \<times> int" string
  | Text "int \<times> int" "codepoint list" string int

datatype log_level = DEBUG | INFO | WARNING | ERROR

datatype log_message =
    Vertical_text_truncated int int
  | Vertical_layout int int int int
  | Photo_background_applied "int \<times> int"
  | Photo_background_error py_error

type_synonym log_record = "log_level \<times> log_message"

subsection \<open>Vertical text (\<^verbatim>\<open>_draw_vertical_text\<close>)\<close>

datatype TextAlignment = LEFT | CENTER | RIGHT

text \<open>
  The dictionary returned by \<^verbatim>\<open>_get_text_area\<close>, with keys \<^verbatim>\<open>x_start\<close>, \<^verbatim>\<open>y_start\<close>,
  \<^verbatim>\<open>width\<close> and \<^verbatim>\<open>height\<close>.
\<close>

record text_area =
  x_start :: int
  y_start :: int
  area_width :: int
  area_height :: int

text \<open>
  Lines 805 to 819: truncation to 30 characters, with its warning, and the number of
  columns. The result is the text that will be drawn, \<^verbatim>\<open>total_chars\<close>, \<^verbatim>\<open>num_columns\<close> and
  the log records written. The warning formats \<^verbatim>\<open>len(text)\<close> after \<^verbatim>\<open>text\<close> has been cut.
\<close>

definition vertical_layout ::
  "codepoint list \<Rightarrow> codepoint list \<times> int \<times> int \<times> log_record list" where
  "vertical_layout text0 =
     (let max_chars_per_column = 10;
          max_columns_allowed = 3;
          max_total_chars = max_chars_per_column * max_columns_allowed;
          truncate = (int (length text0) > max_total_chars);
          text = (if truncate then py_slice text0 0 max_total_chars else text0);
          total_chars = (if truncate then max_total_chars else int (length text0));
          logged = (if truncate
                    then [(WARNING, Vertical_text_truncated (int (length text)) max_total_chars)]
                    else []);
          num_columns0 = min ((total_chars + max_chars_per_column - 1) div max_chars_per_column)
                             max_columns_allowed;
          num_columns = (if total_chars > 0 \<and> num_columns0 = 0 then 1 else num_columns0)
      in (text, total_chars, num_columns, logged))"

text \<open>
  One pass of the outer loop (lines 832 to 844): the \<^verbatim>\<open>draw.text\<close> calls of column \<open>col\<close>,
  top to bottom.
\<close>

definition vertical_column ::
  "codepoint list \<Rightarrow> int \<Rightarrow> int \<Rightarrow> int \<Rightarrow> int \<Rightarrow> int \<Rightarrow> string \<Rightarrow> int \<Rightarrow> int \<Rightarrow> draw_op list" where
  "vertical_column text total_chars x char_width char_size current_y color font_size col =
     (let max_chars_per_column = 10;
          col_x = x + col * char_width;
          start_idx = col * max_chars_per_column;
          end_idx = min (start_idx + max_chars_per_column) total_chars;
          column_chars = py_slice text start_idx end_idx
      in map (\<lambda>(row, char). Text (col_x, current_y + int row * char_size) [char] color font_size)
             (enumerate 0 column_chars))"

text \<open>The columns drawn by one call, left to right, each a list of \<^verbatim>\<open>draw.text\<close> calls.\<close>

definition vertical_text_columns ::
  "codepoint list \<Rightarrow> text_area \<Rightarrow> int \<Rightarrow> int \<Rightarrow> string \<Rightarrow> TextAlignment \<Rightarrow> draw_op list list" where
  "vertical_text_columns text0 text_area current_y font_size color alignment =
     (case vertical_layout text0 of (text, total_chars, num_columns, logged) \<Rightarrow>
        let text_width = area_width text_area;
            char_size = font_size + 8;
            char_width = max font_size 12;
            x = (case alignment of
                   CENTER \<Rightarrow> x_start text_area + (text_width - num_columns * char_width) div 2
                 | RIGHT \<Rightarrow> x_start text_area + text_width - num_columns * char_width
                 | LEFT \<Rightarrow> x_start text_area)
        in map (\<lambda>col. vertical_column text total_chars x char_width char_size current_y
                         color font_size (int col))
               [0 ..< nat num_columns])"

text \<open>
  \<^verbatim>\<open>_draw_vertical_text\<close>: the commands drawn, the log records written and the returned
  vertical position.
\<close>

definition draw_vertical_text ::
  "codepoint list \<Rightarrow> text_area \<Rightarrow> int \<Rightarrow> int \<Rightarrow> string \<Rightarrow> TextAlignment
     \<Rightarrow> draw_op list \<times> log_record list \<times> int" where
  "draw_vertical_text text0 text_area current_y font_size color alignment =
     (case vertical_layout text0 of (text, total_chars, num_columns, logged) \<Rightarrow>
        let char_size = font_size + 8;
            max_chars_per_column = 10;
            actual_rows_used = min total_chars max_chars_per_column
        in (concat (vertical_text_columns text0 text_area current_y font_size color alignment),
            logged @ [(INFO, Vertical_layout total_chars num_columns max_chars_per_column
                               (max font_size 12))],
            current_y + actual_rows_used * char_size + 20))"

text \<open>The string passed to a \<^verbatim>\<open>draw.text\<close> call; empty for any other command.\<close>

fun op_text :: "draw_op \<Rightarrow> codepoint list" where
  "op_text (Text p s c f) = s"
| "op_text _ = []"

text \<open>
  The \<^verbatim>\<open>draw.text\<close> calls expected for column \<open>i\<close> of a vertical block that starts at
  horizontal position \<open>x\<close>: characters \<open>10 i\<close> to \<open>10 i + 9\<close> of the input, one per row.
  This is the reference the model of \<^verbatim>\<open>_draw_vertical_text\<close> is compared with.
\<close>

definition column_ops ::
  "codepoint list \<Rightarrow> int \<Rightarrow> int \<Rightarrow> int \<Rightarrow> string \<Rightarrow> nat \<Rightarrow> draw_op list" where
  "column_ops text0 x current_y font_size color i =
     map (\<lambda>(row, ch). Text (x + int i * max font_size 12, current_y + int row * (font_size + 8))
                          [ch] color font_size)
         (enumerate 0 (take 10 (drop (10 * i) text0)))"

subsection \<open>Decorative elements (\<^verbatim>\<open>_add_decorative_elements\<close>)\<close>

text \<open>
  The commands drawn for a canvas of the given size, complexity and palette, in the order
  of the source. \<^verbatim>\<open>colors[0]\<close> on an empty palette raises \<^verbatim>\<open>IndexError\<close>.
\<close>

definition add_decorative_elements ::
  "int \<Rightarrow> int \<Rightarrow> int \<Rightarrow> string list \<Rightarrow> py_error + draw_op list" where
  "add_decorative_elements width height complexity colors =
     bind (if length colors > 1 then py_index colors 1 else py_index colors 0) (\<lambda>accent_color.
       let border =
             (if complexity \<ge> 2 then
                let border_width = (if complexity \<ge> 4 then 3 else 2);
                    margin = 10
                in [Rectangle (margin, margin) (width - margin - 1, height - margin - 1)
                      None (Some accent_color) border_width]
              else []);
           corners =
             (if complexity \<ge> 3 then
                let corner_size = 15;
                    line_width = 2
                in [Line [(0, corner_size), (0, 0), (corner_size, 0)] accent_color line_width,
                    Line [(width - corner_size, 0), (width - 1, 0), (width - 1, corner_size)]
                      accent_color line_width,
                    Line [(0, height - corner_size - 1), (0, height - 1), (corner_size, height - 1)]
                      accent_color line_width,
                    Line [(width - corner_size - 1, height - 1), (width - 1, height - 1),
                          (width - 1, height - corner_size - 1)] accent_color line_width]
              else [])
       in bind (if complexity \<ge> 4 then
                  let dot_size = 4;
                      dot_margin = 20;
                      positions = [(dot_margin, dot_margin), (width - dot_margin, dot_margin),
                                   (dot_margin, height - dot_margin),
                                   (width - dot_margin, height - dot_margin)]
                  in bind (if length colors > 2 then py_index colors (- 1) else Inr accent_color)
                       (\<lambda>fill. Inr (map (\<lambda>(x, y). Ellipse (x - dot_size, y - dot_size)
                                                        (x + dot_size, y + dot_size) fill)
                                       positions))
                else Inr [])
            (\<lambda>dots.
               let divider =
                     (if complexity \<ge> 5 then
                        let line_y = height - 50
                        in [Line [(40, line_y), (width - 40, line_y)] accent_color 1]
                      else [])
               in Inr (border @ corners @ dots @ divider)))"

text \<open>
  The four categories of ornament, and the category of a drawn command: the border is the
  only rectangle, a corner accent is a line through three points, a dot marker is an
  ellipse and the divider is the line through two points.
\<close>

datatype element = Border | Corner_accent | Dot_marker | Divider

fun element_of :: "draw_op \<Rightarrow> element option" where
  "element_of (Rectangle p q f out w) = Some Border"
| "element_of (Line pts f w) = (if length pts = 2 then Some Divider else Some Corner_accent)"
| "element_of (Ellipse p q f) = Some Dot_marker"
| "element_of (Text p s c f) = None"

text \<open>
  The ornaments tier by tier, written out with their constants: the accent colour, the
  fill of the dot markers, and the commands of the border (tier 2 and up), the corner
  accents (tier 3 and up), the dot markers (tier 4 and up) and the divider (tier 5). The
  model of \<^verbatim>\<open>_add_decorative_elements\<close> is shown below to draw exactly these.
\<close>

definition accent_of :: "string list \<Rightarrow> string" where
  "accent_of colors = (if length colors > 1 then colors ! 1 else colors ! 0)"

definition dot_fill_of :: "string list \<Rightarrow> string" where
  "dot_fill_of colors = (if length colors > 2 then last colors else accent_of colors)"

definition border_ops :: "int \<Rightarrow> int \<Rightarrow> int \<Rightarrow> string list \<Rightarrow> draw_op list" where
  "border_ops width height complexity colors =
     [Rectangle (10, 10) (width - 11, height - 11) None (Some (accent_of colors))
        (if complexity \<ge> 4 then 3 else 2)]"

definition corner_ops :: "int \<Rightarrow> int \<Rightarrow> string list \<Rightarrow> draw_op list" where
  "corner_ops width height colors =
     [Line [(0, 15), (0, 0), (15, 0)] (accent_of colors) 2,
      Line [(width - 15, 0), (width - 1, 0), (width - 1, 15)] (accent_of colors) 2,
      Line [(0, height - 16), (0, height - 1), (15, height - 1)] (accent_of colors) 2,
      Line [(width - 16, height - 1), (width - 1, height - 1), (width - 1, height - 16)]
        (accent_of colors) 2]"

definition dot_ops :: "int \<Rightarrow> int \<Rightarrow> string list \<Rightarrow> draw_op list" where
  "dot_ops width height colors =
     [Ellipse (16, 16) (24, 24) (dot_fill_of colors),
      Ellipse (width - 24, 16) (width - 16, 24) (dot_fill_of colors),
      Ellipse (16, height - 24) (24, height - 16) (dot_fill_of colors),
      Ellipse (width - 24, height - 24) (width - 16, height - 16) (dot_fill_of colors)]"

definition divider_ops :: "int \<Rightarrow> int \<Rightarrow> string list \<Rightarrow> draw_op list" where
  "divider_ops width height colors =
     [Line [(40, height - 50), (width - 40, height - 50)] (accent_of colors) 1]"

subsection \<open>Pillow images\<close>

text \<open>
  An image is the term of the Pillow operations that produced it: \<^verbatim>\<open>Image.new\<close>, the
  decoding of a file (pixel data identified by a number), \<^verbatim>\<open>crop\<close>, \<^verbatim>\<open>resize\<close> with the
  Lanczos filter, \<^verbatim>\<open>paste\<close> of an image at an offset, and the commands drawn through an
  \<^verbatim>\<open>ImageDraw\<close>. Equal terms have equal pixels.
\<close>

datatype image =
    New "int \<times> int" string
  | Decoded "int \<times> int" nat
  | Crop image "int \<times> int \<times> int \<times> int"
  | Resize image "int \<times> int"
  | Paste image image "int \<times> int"
  | Draw image "draw_op list"

fun im_size :: "image \<Rightarrow> int \<times> int" where
  "im_size (New sz c) = sz"
| "im_size (Decoded sz d) = sz"
| "im_size (Crop im box) = (case box of (left, upper, right, lower) \<Rightarrow> (right - left, lower - upper))"
| "im_size (Resize im sz) = sz"
| "im_size (Paste im src pos) = im_size im"
| "im_size (Draw im ops) = im_size im"

text \<open>
  \<^verbatim>\<open>Image.new("RGB", size, color)\<close> raises \<^verbatim>\<open>ValueError\<close> on a negative size and on a colour
  string that Pillow's colour parser rejects; which strings it accepts is the parameter
  \<open>color_ok\<close>.
\<close>

definition Image_new :: "(string \<Rightarrow> bool) \<Rightarrow> int \<times> int \<Rightarrow> string \<Rightarrow> py_error + image" where
  "Image_new color_ok sz color =
     (if fst sz < 0 \<or> snd sz < 0 then Inl ValueError
      else if \<not> color_ok color then Inl ValueError
      else Inr (New sz color))"

text \<open>
  \<^verbatim>\<open>image.crop(box)\<close> raises \<^verbatim>\<open>ValueError\<close> when \<^verbatim>\<open>right < left\<close> or \<^verbatim>\<open>lower < upper\<close>; a box
  of width or height 0 gives an empty image. \<^verbatim>\<open>image.resize(size, LANCZOS)\<close> raises
  \<^verbatim>\<open>ValueError\<close> when the requested width or height is below 1 and otherwise returns an
  image of the requested size, also from an empty source.
\<close>

definition crop :: "image \<Rightarrow> int \<times> int \<times> int \<times> int \<Rightarrow> py_error + image" where
  "crop im box =
     (case box of (left, upper, right, lower) \<Rightarrow>
        if right < left \<or> lower < upper then Inl ValueError else Inr (Crop im box))"

definition resize :: "image \<Rightarrow> int \<times> int \<Rightarrow> py_error + image" where
  "resize im sz = (if fst sz < 1 \<or> snd sz < 1 then Inl ValueError else Inr (Resize im sz))"

text \<open>
  A call on an \<^verbatim>\<open>ImageDraw\<close> raises \<^verbatim>\<open>ValueError\<close> when Pillow rejects it (a colour string it
  cannot parse, a box whose corners are out of order); which calls it accepts is the
  parameter \<open>draw_ok\<close>. The commands of a list are drawn in order, so the list is drawn
  when every command is accepted and the first rejected command raises otherwise.
\<close>

definition draw_commands :: "(draw_op \<Rightarrow> bool) \<Rightarrow> image \<Rightarrow> draw_op list \<Rightarrow> py_error + image" where
  "draw_commands draw_ok im ops =
     (if list_all draw_ok ops then Inr (Draw im ops) else Inl ValueError)"

text \<open>\<^verbatim>\<open>x / y\<close> on floats.\<close>

definition py_fdiv :: "rat \<Rightarrow> rat \<Rightarrow> py_error + rat" where
  "py_fdiv x y = (if y = 0 then Inl ZeroDivisionError else Inr (x / y))"

subsection \<open>Fitting an image to a zone (\<^verbatim>\<open>_fit_image_to_zone\<close>)\<close>

definition fit_image_to_zone :: "image \<Rightarrow> int \<Rightarrow> int \<Rightarrow> py_error + image" where
  "fit_image_to_zone im target_width target_height =
     (let image_width = fst (im_size im);
          image_height = snd (im_size im)
      in bind (py_truediv target_width target_height) (\<lambda>target_ratio.
         bind (py_truediv image_width image_height) (\<lambda>img_ratio.
           if \<bar>target_ratio - img_ratio\<bar> < 1 / 10
           then resize im (target_width, target_height)
           else
             bind (if img_ratio > target_ratio
                   then
                     let new_width = py_int (of_int image_height * target_ratio);
                         left = (image_width - new_width) div 2
                     in crop im (left, 0, left + new_width, image_height)
                   else
                     bind (py_fdiv (of_int image_width) target_ratio) (\<lambda>q.
                       let new_height = py_int q;
                           top = (image_height - new_height) div 2
                       in crop im (0, top, image_width, top + new_height)))
               (\<lambda>cropped. resize cropped (target_width, target_height)))))"

subsection \<open>Floats in binary64\<close>

text \<open>
  A binary64 float is a finite value, given by the rational it denotes, an infinity or a
  NaN. The sign of a zero is not kept: no operation below depends on it.
\<close>

datatype py_float = Finite rat | PosInf | NegInf | NaN

text \<open>
  The number of binary digits of a positive integer, the powers of two, and
  \<open>\<lfloor>log\<^sub>2 x\<rfloor>\<close> for a positive rational \<open>x = p / q\<close>: it is the difference of the digit counts of
  \<open>p\<close> and \<open>q\<close> or one less.
\<close>

function bit_length :: "int \<Rightarrow> int" where
  "bit_length n = (if n \<le> 0 then 0 else 1 + bit_length (n div 2))"
  by pat_completeness auto

termination
  by (relation "measure nat") auto

definition pow2 :: "int \<Rightarrow> rat" where
  "pow2 e = (if 0 \<le> e then 2 ^ nat e else 1 / 2 ^ nat (- e))"

definition floor_log2 :: "rat \<Rightarrow> int" where
  "floor_log2 x =
     (case quotient_of x of (p, q) \<Rightarrow>
        let d = bit_length p - bit_length q
        in if pow2 d \<le> x then d else d - 1)"

definition round_half_even :: "rat \<Rightarrow> int" where
  "round_half_even x =
     (let n = \<lfloor>x\<rfloor>;
          r = x - of_int n
      in if r < 1 / 2 then n else if 1 / 2 < r then n + 1 else if even n then n else n + 1)"

text \<open>
  Rounding of a rational to the nearest binary64 value, ties to even. The result is a
  multiple \<open>m * pow2 e\<close> of the unit in the last place: \<open>e\<close> leaves 53 significant bits and
  is at least \<open>-1074\<close> (subnormal numbers), and \<open>m\<close> is the quotient rounded to an integer.
  The result is infinite when \<open>m * pow2 e\<close> reaches \<open>pow2 1024\<close>, that is when \<open>e\<close> exceeds 971,
  or \<open>e\<close> is 971 and \<open>m\<close> was rounded up to \<open>2 ^ 53\<close>.
\<close>

definition round_binary64 :: "rat \<Rightarrow> py_float" where
  "round_binary64 x =
     (if x = 0 then Finite 0
      else
        let e = max (floor_log2 \<bar>x\<bar> - 52) (- 1074);
            m = round_half_even (\<bar>x\<bar> / pow2 e);
            y = of_int m * pow2 e
        in if 971 < e \<or> (e = 971 \<and> m = 2 ^ 53) then (if 0 < x then PosInf else NegInf)
           else Finite (if 0 < x then y else - y))"

text \<open>
  The sign of a float that is not a NaN, and the infinity of a sign; the product of an
  infinity and a zero is a NaN.
\<close>

fun float_sign :: "py_float \<Rightarrow> int" where
  "float_sign (Finite x) = (if 0 < x then 1 else if x < 0 then - 1 else 0)"
| "float_sign PosInf = 1"
| "float_sign NegInf = - 1"
| "float_sign NaN = 0"

definition infinity_of_sign :: "int \<Rightarrow> py_float" where
  "infinity_of_sign sg = (if sg = 0 then NaN else if 0 < sg then PosInf else NegInf)"

text \<open>
  \<^verbatim>\<open>x / y\<close> and \<^verbatim>\<open>x * y\<close> on two floats, \<^verbatim>\<open>float(n)\<close> as applied to the integer operand of a
  mixed operation, and \<^verbatim>\<open>int(x)\<close>. A zero divisor raises; an integer beyond the range of
  the floats raises \<^verbatim>\<open>OverflowError\<close>, and so does \<^verbatim>\<open>int\<close> of an infinity, while \<^verbatim>\<open>int\<close> of a
  NaN raises \<^verbatim>\<open>ValueError\<close>.
\<close>

definition float_truediv :: "py_float \<Rightarrow> py_float \<Rightarrow> py_error + py_float" where
  "float_truediv a b =
     (if b = Finite 0 then Inl ZeroDivisionError
      else if a = NaN \<or> b = NaN then Inr NaN
      else
        (case (a, b) of
           (Finite x, Finite y) \<Rightarrow> Inr (round_binary64 (x / y))
         | (Finite x, _) \<Rightarrow> Inr (Finite 0)
         | (_, Finite y) \<Rightarrow> Inr (infinity_of_sign (float_sign a * float_sign b))
         | (_, _) \<Rightarrow> Inr NaN))"

definition float_mul :: "py_float \<Rightarrow> py_float \<Rightarrow> py_float" where
  "float_mul a b =
     (if a = NaN \<or> b = NaN then NaN
      else
        (case (a, b) of
           (Finite x, Finite y) \<Rightarrow> round_binary64 (x * y)
         | (_, _) \<Rightarrow> infinity_of_sign (float_sign a * float_sign b)))"

definition float_of_int :: "int \<Rightarrow> py_error + py_float" where
  "float_of_int n =
     (case round_binary64 (of_int n) of
        Finite x \<Rightarrow> Inr (Finite x)
      | _ \<Rightarrow> Inl OverflowError)"

definition int_of_float :: "py_float \<Rightarrow> py_error + int" where
  "int_of_float a =
     (case a of
        Finite x \<Rightarrow> Inr (py_int x)
      | NaN \<Rightarrow> Inl ValueError
      | _ \<Rightarrow> Inl OverflowError)"

subsection \<open>Configuration (\<^verbatim>\<open>config.py\<close>)\<close>

text \<open>
  A millimetre setting is the number written in the configuration (\<^verbatim>\<open>60\<close>, \<^verbatim>\<open>64.77\<close>); the
  \<^verbatim>\<open>Settings\<close> object holds it as a float, the binary64 value nearest to it. Settings that
  are not numbers (\<^verbatim>\<open>inf\<close>, \<^verbatim>\<open>nan\<close>) are not modelled.
\<close>

record settings =
  BOOKMARK_WIDTH_MM :: rat
  BOOKMARK_HEIGHT_MM :: rat
  BLEED_MM :: rat
  SAFE_MARGIN_MM :: rat
  PREVIEW_DPI :: int
  FINAL_DPI :: int
  DOWNLOAD_DIR :: string

text \<open>The defaults of the \<^verbatim>\<open>Settings\<close> class.\<close>

definition default_settings :: settings where
  "default_settings =
     \<lparr>BOOKMARK_WIDTH_MM = 60, BOOKMARK_HEIGHT_MM = 180, BLEED_MM = 3, SAFE_MARGIN_MM = 5,
      PREVIEW_DPI = 72, FINAL_DPI = 300, DOWNLOAD_DIR = ''downloads''\<rparr>"

text \<open>
  \<^verbatim>\<open>mm_to_px\<close>, line 137: \<^verbatim>\<open>(mm / 25.4) * dpi\<close>. The literal \<^verbatim>\<open>25.4\<close> is the float nearest to
  254/10, the quotient is rounded, \<^verbatim>\<open>dpi\<close> is converted to a float and the product is
  rounded again.
\<close>

definition mm_to_px :: "py_float \<Rightarrow> int \<Rightarrow> py_error + py_float" where
  "mm_to_px mm dpi =
     bind (float_truediv mm (round_binary64 (254 / 10))) (\<lambda>inches.
     bind (float_of_int dpi) (\<lambda>dots. Inr (float_mul inches dots)))"

text \<open>The pixel sizes, each \<^verbatim>\<open>int(self.mm_to_px(...))\<close> of a setting at a DPI.\<close>

definition bookmark_size_px_preview :: "settings \<Rightarrow> py_error + (int \<times> int)" where
  "bookmark_size_px_preview s =
     bind (bind (mm_to_px (round_binary64 (BOOKMARK_WIDTH_MM s)) (PREVIEW_DPI s)) int_of_float)
       (\<lambda>width_px.
     bind (bind (mm_to_px (round_binary64 (BOOKMARK_HEIGHT_MM s)) (PREVIEW_DPI s)) int_of_float)
       (\<lambda>height_px.
     Inr (width_px, height_px)))"

definition bookmark_size_px_final :: "settings \<Rightarrow> py_error + (int \<times> int)" where
  "bookmark_size_px_final s =
     bind (bind (mm_to_px (round_binary64 (BOOKMARK_WIDTH_MM s)) (FINAL_DPI s)) int_of_float)
       (\<lambda>width_px.
     bind (bind (mm_to_px (round_binary64 (BOOKMARK_HEIGHT_MM s)) (FINAL_DPI s)) int_of_float)
       (\<lambda>height_px.
     Inr (width_px, height_px)))"

definition bleed_px_final :: "settings \<Rightarrow> py_error + int" where
  "bleed_px_final s = bind (mm_to_px (round_binary64 (BLEED_MM s)) (FINAL_DPI s)) int_of_float"

definition safe_margin_px_final :: "settings \<Rightarrow> py_error + int" where
  "safe_margin_px_final s =
     bind (mm_to_px (round_binary64 (SAFE_MARGIN_MM s)) (FINAL_DPI s)) int_of_float"

subsection \<open>Requests (\<^verbatim>\<open>schemas.py\<close>)\<close>

text \<open>
  The enumerations and models of \<^verbatim>\<open>schemas.py\<close>. Members and fields that would share a
  name across types carry the name of their type as a prefix.
\<close>

datatype MoodType = WARM | FRESH | PROFESSIONAL | PLAYFUL | ELEGANT | MODERN | ARTISTIC

datatype LayoutType =
  LAYOUT_HORIZONTAL | LAYOUT_VERTICAL | LAYOUT_CENTERED | LAYOUT_MOSAIC | LAYOUT_FULL_BLEED

datatype BackgroundType = SOLID | GRADIENT | IMAGE

datatype GradientDirection =
  GRADIENT_HORIZONTAL | GRADIENT_VERTICAL | GRADIENT_DIAGONAL | GRADIENT_RADIAL

datatype TextDirection = TEXT_HORIZONTAL | TEXT_VERTICAL

datatype FontSize = SMALL | MEDIUM | LARGE | EXTRA_LARGE

record GradientBackground =
  gradient_direction :: GradientDirection
  gradient_colors :: "string list"
  gradient_angle :: rat

record ImageBackground =
  image_path :: string
  opacity :: rat
  fit_mode :: string

record SolidBackground =
  solid_color :: string

record BackgroundSettings =
  background_type :: BackgroundType
  bg_solid :: "SolidBackground option"
  bg_gradient :: "GradientBackground option"
  bg_image :: "ImageBackground option"

record TextPosition =
  top_margin :: int
  bottom_margin :: int
  left_margin :: int
  right_margin :: int
  position_width :: "int option"
  position_height :: "int option"
  position_alignment :: TextAlignment
  position_direction :: TextDirection

record TextStyle =
  style_font_size :: FontSize
  style_font_weight :: string
  style_font_style :: string
  style_color :: string
  style_alignment :: TextAlignment
  style_direction :: TextDirection

record TextBlock =
  block_text :: "codepoint list"
  block_style :: TextStyle

record RichTextContent =
  blocks :: "TextBlock list"

record GenerateFinalRequest =
  req_mood :: MoodType
  req_complexity :: int
  req_colors :: "string list"
  req_layout :: LayoutType
  req_user_photo_path :: "string option"
  req_user_text :: "codepoint list"
  req_rich_text :: "RichTextContent option"
  req_background :: "BackgroundSettings option"
  req_text_position :: "TextPosition option"
  req_show_borders :: bool

subsection \<open>Files and the environment of a render call\<close>

text \<open>
  A file is an image Pillow can decode, a PNG or PDF written by \<^verbatim>\<open>image.save\<close> (with the
  image and the DPI it was saved at), or something else. The file system maps paths to
  files. \<^verbatim>\<open>Image.open\<close> returns the decoded image of an image file or a saved PNG and
  raises otherwise.
\<close>

datatype stored_file = Image_file image | Png_file image int | Pdf_file image int | Other_file

type_synonym filesystem = "string \<Rightarrow> stored_file option"

definition Image_open :: "filesystem \<Rightarrow> string \<Rightarrow> py_error + image" where
  "Image_open fs path =
     (case fs path of
        None \<Rightarrow> Inl FileNotFoundError
      | Some (Image_file im) \<Rightarrow> Inr im
      | Some (Png_file im dpi) \<Rightarrow> Inr im
      | Some (Pdf_file im dpi) \<Rightarrow> Inl UnidentifiedImageError
      | Some Other_file \<Rightarrow> Inl UnidentifiedImageError)"

text \<open>
  \<^verbatim>\<open>image.save(path, ...)\<close>: the write succeeds at the paths the environment can write
  and raises \<^verbatim>\<open>OSError\<close> elsewhere, leaving no file of its own behind.
\<close>

definition save :: "(string \<Rightarrow> bool) \<Rightarrow> filesystem \<Rightarrow> string \<Rightarrow> stored_file \<Rightarrow> py_error + filesystem" where
  "save can_write fs path f = (if can_write path then Inr (fs(path \<mapsto> f)) else Inl OSError)"

text \<open>
  What a render call reads from outside: the settings, the colour strings and the
  drawing calls Pillow accepts, the paths that can be written, \<^verbatim>\<open>uuid.uuid4().hex\<close> and
  the formatted current time.
\<close>

record environment =
  env_settings :: settings
  env_color_ok :: "string \<Rightarrow> bool"
  env_draw_ok :: "draw_op \<Rightarrow> bool"
  env_writable :: "string \<Rightarrow> bool"
  env_uuid_hex :: string
  env_timestamp :: string

text \<open>
  Three rendering stages are parameters of the orchestration, each with the arguments
  the source passes to it: \<^verbatim>\<open>_apply_layout\<close> (the commands it draws, or the exception it
  raises), \<^verbatim>\<open>_draw_background\<close> (the content image with the background drawn, or the
  exception) and \<^verbatim>\<open>_add_user_text\<close> (the commands it draws; it catches every exception
  itself). The properties below hold for every such stage.
\<close>

record stages =
  apply_layout :: "int \<Rightarrow> int \<Rightarrow> LayoutType \<Rightarrow> string list \<Rightarrow> bool \<Rightarrow> py_error + draw_op list"
  draw_background :: "image \<Rightarrow> BackgroundSettings \<Rightarrow> py_error + image"
  add_user_text :: "int \<Rightarrow> int \<Rightarrow> LayoutType \<Rightarrow> codepoint list \<Rightarrow> string list
                      \<Rightarrow> RichTextContent option \<Rightarrow> TextPosition option \<Rightarrow> draw_op list"

subsection \<open>Preview (\<^verbatim>\<open>generate_preview\<close>)\<close>

text \<open>
  The result is the returned triple or the exception raised, together with the file
  system after the call.
\<close>

definition generate_preview ::
  "environment \<Rightarrow> stages \<Rightarrow> filesystem \<Rightarrow> MoodType \<Rightarrow> int \<Rightarrow> string list \<Rightarrow> LayoutType
     \<Rightarrow> (py_error + (string \<times> int \<times> int)) \<times> filesystem" where
  "generate_preview env st fs mood complexity colors layout =
     (case bookmark_size_px_preview (env_settings env) of
        Inl e \<Rightarrow> (Inl e, fs)
      | Inr (width, height) \<Rightarrow>
       (case bind (py_index colors 0) (Image_new (env_color_ok env) (width, height)) of
          Inl e \<Rightarrow> (Inl e, fs)
        | Inr base \<Rightarrow>
            (case apply_layout st width height layout colors True of
               Inl e \<Rightarrow> (Inl e, fs)
             | Inr layout_ops \<Rightarrow>
                 (case bind (add_decorative_elements width height complexity colors)
                         (draw_commands (env_draw_ok env) (Draw base layout_ops)) of
                    Inl e \<Rightarrow> (Inl e, fs)
                  | Inr drawn \<Rightarrow>
                      let filename = ''preview_'' @ take 8 (env_uuid_hex env) @ ''.png'';
                          filepath = DOWNLOAD_DIR (env_settings env) @ ''/'' @ filename;
                          saved = Png_file drawn (PREVIEW_DPI (env_settings env))
                      in (case save (env_writable env) fs filepath saved of
                            Inl e \<Rightarrow> (Inl e, fs)
                          | Inr fs' \<Rightarrow> (Inr (filepath, width, height), fs'))))))"

subsection \<open>Final output (\<^verbatim>\<open>generate_final\<close>)\<close>

text \<open>
  Lines 374 to 410: the background of the content image. With a user photo path that is
  non-empty and exists, the photo is opened, fitted and pasted inside a \<^verbatim>\<open>try\<close> block
  whose handler logs the exception and goes on; otherwise the background settings or
  the default colour are drawn.
\<close>

definition generate_final_background ::
  "environment \<Rightarrow> stages \<Rightarrow> filesystem \<Rightarrow> GenerateFinalRequest \<Rightarrow> string option \<Rightarrow> image
     \<Rightarrow> int \<Rightarrow> int \<Rightarrow> py_error + (image \<times> log_record list)" where
  "generate_final_background env st fs request user_photo_path content_image content_width
       content_height =
     (if (case user_photo_path of None \<Rightarrow> False | Some p \<Rightarrow> p \<noteq> [] \<and> fs p \<noteq> None)
      then
        (case bind (Image_open fs (the user_photo_path))
                (\<lambda>user_photo. fit_image_to_zone user_photo content_width content_height) of
           Inr fitted_photo \<Rightarrow>
             Inr (Paste content_image fitted_photo (0, 0),
                  [(INFO, Photo_background_applied (im_size fitted_photo))])
         | Inl e \<Rightarrow> Inr (content_image, [(ERROR, Photo_background_error e)]))
      else
        (case req_background request of
           Some background \<Rightarrow>
             bind (draw_background st content_image background) (\<lambda>drawn. Inr (drawn, []))
         | None \<Rightarrow>
             let default_color =
                   (if req_colors request \<noteq> [] then req_colors request ! 0 else ''#FFFFFF'')
             in bind (draw_commands (env_draw_ok env) content_image
                        [Rectangle (0, 0) (content_width, content_height)
                           (Some default_color) None 1])
                  (\<lambda>drawn. Inr (drawn, []))))"

text \<open>
  Lines 342 to 444: the pixel sizes (the bleed, the safe margin, which is only logged,
  and the content size, read twice from the same property), the canvas with bleed, the
  content image cropped from it, the background, the text, the decorations when
  \<^verbatim>\<open>show_borders\<close> is set, and the content pasted back. The result is the final image and
  the log records of the background step.
\<close>

definition generate_final_image ::
  "environment \<Rightarrow> stages \<Rightarrow> filesystem \<Rightarrow> GenerateFinalRequest \<Rightarrow> string option
     \<Rightarrow> py_error + (image \<times> log_record list)" where
  "generate_final_image env st fs request user_photo_path =
     bind (bleed_px_final (env_settings env)) (\<lambda>bleed_px.
     bind (safe_margin_px_final (env_settings env)) (\<lambda>safe_margin.
     bind (bookmark_size_px_final (env_settings env)) (\<lambda>(content_width, content_height).
       let total_width = content_width + 2 * bleed_px;
           total_height = content_height + 2 * bleed_px
       in bind (bind (py_index (req_colors request) 0)
                  (Image_new (env_color_ok env) (total_width, total_height))) (\<lambda>base.
          let content_area = (bleed_px, bleed_px, bleed_px + content_width,
                              bleed_px + content_height)
          in bind (crop base content_area) (\<lambda>content_image.
             bind (generate_final_background env st fs request user_photo_path content_image
                     content_width content_height) (\<lambda>(content_image, logged).
             let content_image =
                   Draw content_image
                     (add_user_text st content_width content_height (req_layout request)
                        (req_user_text request) (req_colors request) (req_rich_text request)
                        (req_text_position request))
             in bind (if req_show_borders request
                      then bind (add_decorative_elements content_width content_height
                                   (req_complexity request) (req_colors request))
                             (draw_commands (env_draw_ok env) content_image)
                      else Inr content_image) (\<lambda>content_image.
                Inr (Paste base content_image (bleed_px, bleed_px), logged))))))))"

text \<open>The paths of the two output files.\<close>

definition png_filepath :: "environment \<Rightarrow> string" where
  "png_filepath env =
     DOWNLOAD_DIR (env_settings env) @ ''/'' @ ''bookmark_'' @ env_timestamp env @ ''_''
       @ take 12 (env_uuid_hex env) @ ''.png''"

definition pdf_filepath :: "environment \<Rightarrow> string" where
  "pdf_filepath env =
     DOWNLOAD_DIR (env_settings env) @ ''/'' @ ''bookmark_'' @ env_timestamp env @ ''_''
       @ take 12 (env_uuid_hex env) @ ''.pdf''"

text \<open>
  \<^verbatim>\<open>generate_final\<close>: the image is rendered, saved as PNG and then as PDF. The result is
  the returned pair of paths or the exception raised, together with the file system
  after the call; nothing in the function removes a file.
\<close>

definition generate_final ::
  "environment \<Rightarrow> stages \<Rightarrow> filesystem \<Rightarrow> GenerateFinalRequest \<Rightarrow> string option
     \<Rightarrow> (py_error + (string \<times> string)) \<times> filesystem" where
  "generate_final env st fs request user_photo_path =
     (case generate_final_image env st fs request user_photo_path of
        Inl e \<Rightarrow> (Inl e, fs)
      | Inr (final_image, logged) \<Rightarrow>
          (case save (env_writable env) fs (png_filepath env)
                  (Png_file final_image (FINAL_DPI (env_settings env))) of
             Inl e \<Rightarrow> (Inl e, fs)
           | Inr fs1 \<Rightarrow>
               (case save (env_writable env) fs1 (pdf_filepath env)
                       (Pdf_file final_image (FINAL_DPI (env_settings env))) of
                  Inl e \<Rightarrow> (Inl e, fs1)
                | Inr fs2 \<Rightarrow> (Inr (png_filepath env, pdf_filepath env), fs2))))"

subsection \<open>A concrete environment\<close>

text \<open>
  The default settings, a Pillow that accepts the 6-hex-digit colours and the drawing
  calls whose colours it accepts and whose boxes are in order, stages that draw nothing,
  and a request with a two-colour palette; used to evaluate the functions above.
\<close>

fun example_draw_ok :: "draw_op \<Rightarrow> bool" where
  "example_draw_ok (Rectangle p q fill outline w) =
     (fst p \<le> fst q \<and> snd p \<le> snd q
      \<and> (case fill of None \<Rightarrow> True | Some c \<Rightarrow> valid_hex_color c)
      \<and> (case outline of None \<Rightarrow> True | Some c \<Rightarrow> valid_hex_color c))"
| "example_draw_ok (Line pts c w) = valid_hex_color c"
| "example_draw_ok (Ellipse p q c) = (fst p \<le> fst q \<and> snd p \<le> snd q \<and> valid_hex_color c)"
| "example_draw_ok (Text p t c f) = valid_hex_color c"

definition example_env :: "(string \<Rightarrow> bool) \<Rightarrow> environment" where
  "example_env can_write =
     \<lparr>env_settings = default_settings, env_color_ok = valid_hex_color,
      env_draw_ok = example_draw_ok,
      env_writable = can_write, env_uuid_hex = ''0123456789abcdef0123456789abcdef'',
      env_timestamp = ''20240101_120000''\<rparr>"

definition example_stages :: stages where
  "example_stages =
     \<lparr>apply_layout = (\<lambda>width height layout colors is_preview. Inr []),
      draw_background = (\<lambda>im background. Inr (Draw im [])),
      add_user_text = (\<lambda>width height layout text colors rich_text text_position. [])\<rparr>"

definition example_request :: GenerateFinalRequest where
  "example_request =
     \<lparr>req_mood = WARM, req_complexity = 3, req_colors = [''#F5F5DC'', ''#4A7C59''],
      req_layout = LAYOUT_HORIZONTAL, req_user_photo_path = None, req_user_text = [],
      req_rich_text = None, req_background = None, req_text_position = None,
      req_show_borders = False\<rparr>"



definition example_background :: BackgroundSettings where
  "example_background =
     \<lparr>background_type = SOLID, bg_solid = Some \<lparr>solid_color = ''#FF0000''\<rparr>,
      bg_gradient = None, bg_image = None\<rparr>"

text \<open>
  A file system holding a decodable photo of 400 by 300 pixels, the final image of the
  example request with that photo as its background, and the environment of another
  call: the same settings, another uuid and another time.
\<close>

definition example_photo_fs :: filesystem where
  "example_photo_fs = [''uploads/photo.jpg'' \<mapsto> Image_file (Decoded (400, 300) 7)]"

definition example_photo_image :: image where
  "example_photo_image =
     Paste (New (778, 2195) ''#F5F5DC'')
       (Draw (Paste (Crop (New (778, 2195) ''#F5F5DC'') (35, 35, 743, 2160))
                (Resize (Crop (Decoded (400, 300) 7) (150, 0, 249, 300)) (708, 2125)) (0, 0))
          [])
       (35, 35)"

definition other_call_env :: environment where
  "other_call_env =
     (example_env (\<lambda>path. True))
       \<lparr>env_uuid_hex := ''fedcba9876543210fedcba9876543210'',
        env_timestamp := ''20240202_130000''\<rparr>"

section \<open>Properties\<close>

subsection \<open>Line wrapping\<close>

lemma wrap_loop_concat:
  "wrap_loop tw mw lines cur s = (lines', cur') \<Longrightarrow>
   concat lines' @ cur' = concat lines @ cur @ s"
proof (induction s arbitrary: lines cur)
  case Nil
  then show ?case by simp
next
  case (Cons c rest)
  show ?case
  proof (cases "tw (cur @ [c]) \<le> mw")
    case True
    with Cons.prems have "wrap_loop tw mw lines (cur @ [c]) rest = (lines', cur')"
      by simp
    from Cons.IH [OF this] show ?thesis by simp
  next
    case False
    with Cons.prems
    have "wrap_loop tw mw (if cur \<noteq> [] then lines @ [cur] else lines) [c] rest = (lines', cur')"
      by simp
    from Cons.IH [OF this] show ?thesis by (simp split: if_splits)
  qed
qed

lemma wrap_loop_bounded:
  assumes "wrap_loop tw mw lines cur s = (lines', cur')"
    and "\<forall>c \<in> set s. tw [c] \<le> mw"
    and "\<forall>l \<in> set lines. tw l \<le> mw"
    and "cur \<noteq> [] \<longrightarrow> tw cur \<le> mw"
  shows "(\<forall>l \<in> set lines'. tw l \<le> mw) \<and> (cur' \<noteq> [] \<longrightarrow> tw cur' \<le> mw)"
  using assms
proof (induction s arbitrary: lines cur)
  case Nil
  then show ?case by simp
next
  case (Cons c rest)
  show ?case
  proof (cases "tw (cur @ [c]) \<le> mw")
    case True
    with Cons.prems(1) have run: "wrap_loop tw mw lines (cur @ [c]) rest = (lines', cur')"
      by simp
    show ?thesis
      by (rule Cons.IH [OF run]) (use Cons.prems True in auto)
  next
    case False
    let ?ls = "if cur \<noteq> [] then lines @ [cur] else lines"
    from False Cons.prems(1) have run: "wrap_loop tw mw ?ls [c] rest = (lines', cur')"
      by simp
    show ?thesis
      by (rule Cons.IH [OF run]) (use Cons.prems in auto)
  qed
qed

text \<open>
  Claim C10. For every input string, concatenating the lines returned by
  \<^verbatim>\<open>_wrap_text_lines\<close> in order yields exactly the input string: no character is dropped,
  duplicated or reordered, whatever the font measures and whatever the width limit is.
\<close>

theorem wrap_text_lines_concat:
  "concat (wrap_text_lines textwidth text max_width) = text"
proof -
  obtain lines cur where run: "wrap_loop textwidth max_width [] [] text = (lines, cur)"
    by (cases "wrap_loop textwidth max_width [] [] text")
  from wrap_loop_concat [OF run] have "concat lines @ cur = text" by simp
  with run show ?thesis by (auto simp: wrap_text_lines_def)
qed

text \<open>
  Claim C4. If every single character of the input measures at most \<open>max_width\<close>, then every
  line produced by the greedy character-by-character wrapping measures at most \<open>max_width\<close>.
\<close>

theorem wrap_text_lines_width:
  assumes "\<forall>c \<in> set text. textwidth [c] \<le> max_width"
  shows "\<forall>l \<in> set (wrap_text_lines textwidth text max_width). textwidth l \<le> max_width"
proof -
  obtain lines cur where run: "wrap_loop textwidth max_width [] [] text = (lines, cur)"
    by (cases "wrap_loop textwidth max_width [] [] text")
  from wrap_loop_bounded [OF run assms]
  have "(\<forall>l \<in> set lines. textwidth l \<le> max_width) \<and> (cur \<noteq> [] \<longrightarrow> textwidth cur \<le> max_width)"
    by simp
  with run show ?thesis by (auto simp: wrap_text_lines_def)
qed

theorem wrap_text_lines_width_witness:
  "list_all (\<lambda>c. 10 * int (length [c :: codepoint]) \<le> 25) [104, 101, 108, 108, 111]
   \<and> list_all (\<lambda>l. 10 * int (length l) \<le> 25)
         (wrap_text_lines (\<lambda>s. 10 * int (length s)) [104, 101, 108, 108, 111] 25)
   \<and> wrap_text_lines (\<lambda>s. 10 * int (length s)) [104, 101, 108, 108, 111] 25
       = [[104, 101], [108, 108], [111]]"
proof -
  have single: "\<forall>c \<in> set [104, 101, 108, 108, 111]. 10 * int (length [c :: codepoint]) \<le> 25"
    by simp
  from wrap_text_lines_width [of "[104, 101, 108, 108, 111]" "\<lambda>s. 10 * int (length s)" 25,
      OF single]
  have "list_all (\<lambda>l. 10 * int (length l) \<le> 25)
         (wrap_text_lines (\<lambda>s. 10 * int (length s)) [104, 101, 108, 108, 111] 25)"
    by (simp only: list_all_iff)
  then show ?thesis by (simp add: wrap_text_lines_def)
qed

subsection \<open>Colour interpolation\<close>

lemma bind_Inr [simp]: "bind (Inr v) f = f v"
  by (simp add: bind_def)

lemma bind_Inl [simp]: "bind (Inl e) f = Inl e"
  by (simp add: bind_def)

lemma py_int_of_int [simp]: "py_int (of_int n) = n"
  by (simp add: py_int_def)

lemma py_index_nat: "i < length xs \<Longrightarrow> py_index xs (int i) = Inr (xs ! i)"
  by (simp add: py_index_def)

lemma py_index_first: "xs \<noteq> [] \<Longrightarrow> py_index xs 0 = Inr (hd xs)"
  using py_index_nat [of 0 xs] by (cases xs) simp_all

lemma py_index_last: "xs \<noteq> [] \<Longrightarrow> py_index xs (int (length xs) - 1) = Inr (last xs)"
  by (cases xs rule: rev_cases) (simp_all add: py_index_def Let_def)

lemma py_int_0 [simp]: "py_int 0 = 0"
  by (simp add: py_int_def)

lemma py_int_pred: "py_int (rat_of_nat n - 1) = int n - 1"
proof -
  have "rat_of_nat n - 1 = rat_of_int (int n - 1)" by simp
  then show ?thesis by (simp only: py_int_of_int)
qed

lemma hex_value_total:
  "list_all (\<lambda>d. hex_digit d \<noteq> None) ds \<Longrightarrow> \<exists>v. hex_value acc ds = Some v"
  by (induction ds arbitrary: acc) auto

lemma int_base16_total:
  assumes "s \<noteq> []" and "list_all (\<lambda>d. hex_digit d \<noteq> None) s"
  shows "\<exists>v. int_base16 s = Inr v"
  using assms hex_value_total [of s 0] by (auto simp: int_base16_def)

lemma hex_to_rgb_total:
  assumes "valid_hex_color c"
  shows "\<exists>r g b. hex_to_rgb c = Inr (r, g, b)"
proof -
  from assms obtain ds where c: "c = CHR ''#'' # ds" and len: "length ds = 6"
    and ok: "list_all (\<lambda>d. hex_digit d \<noteq> None) ds"
    by (auto simp: valid_hex_color_def split: list.splits)
  from len obtain d1 d2 d3 d4 d5 d6 where ds: "ds = [d1, d2, d3, d4, d5, d6]"
    by (auto simp: length_Suc_conv eval_nat_numeral)
  have "hex_digit (CHR ''#'') = None" by (simp add: hex_digit_def)
  with ok ds have d1: "d1 \<noteq> CHR ''#''" by auto
  have strip: "dropWhile (\<lambda>c. c = CHR ''#'') c = ds"
    using d1 by (simp add: c ds)
  have s1: "py_slice ds 0 2 = [d1, d2]" and s2: "py_slice ds 2 4 = [d3, d4]"
    and s3: "py_slice ds 4 6 = [d5, d6]"
    by (simp_all add: py_slice_def slice_bound_def ds)
  obtain r where r: "int_base16 [d1, d2] = Inr r"
    using int_base16_total [of "[d1, d2]"] ok ds by auto
  obtain g where g: "int_base16 [d3, d4] = Inr g"
    using int_base16_total [of "[d3, d4]"] ok ds by auto
  obtain b where b: "int_base16 [d5, d6] = Inr b"
    using int_base16_total [of "[d5, d6]"] ok ds by auto
  show ?thesis
    by (simp add: hex_to_rgb_def strip s1 s2 s3 r g b)
qed

lemma interpolate_color_clamped:
  "interpolate_color colors ratio = interpolate_color colors (max 0 (min 1 ratio))"
  by (simp add: interpolate_color_def)

lemma interpolate_color_at_0:
  assumes ne: "colors \<noteq> []" and valid: "\<forall>c \<in> set colors. valid_hex_color c"
  shows "interpolate_color colors 0 = hex_to_rgb (hd colors)"
proof (cases "length colors = 1")
  case True
  with ne show ?thesis by (simp add: interpolate_color_def py_index_first)
next
  case False
  with ne have len: "2 \<le> length colors" by (cases colors) (auto simp: Suc_le_eq)
  from ne valid obtain r g b where first: "hex_to_rgb (hd colors) = Inr (r, g, b)"
    using hex_to_rgb_total [of "hd colors"] by auto
  from len have m: "min 1 (int (length colors) - 1) = int (1::nat)" by simp
  from len have second: "py_index colors (int (1::nat)) = Inr (colors ! 1)"
    by (intro py_index_nat) simp
  from len valid obtain r' g' b' where snd: "hex_to_rgb (colors ! 1) = Inr (r', g', b')"
    using hex_to_rgb_total [of "colors ! 1"] by auto
  have "interpolate_color colors 0 =
        bind (bind (py_index colors 0) hex_to_rgb) (\<lambda>color1.
        bind (bind (py_index colors (min 1 (int (length colors) - 1))) hex_to_rgb) (\<lambda>color2.
          case (color1, color2) of ((r1, g1, b1), (r2, g2, b2)) \<Rightarrow> Inr (r1, g1, b1)))"
    using False by (simp add: interpolate_color_def Let_def split_def)
  also have "\<dots> = Inr (r, g, b)"
    unfolding m second using snd by (simp add: py_index_first ne first)
  finally show ?thesis by (simp add: first)
qed

lemma interpolate_color_at_1:
  assumes ne: "colors \<noteq> []" and valid: "\<forall>c \<in> set colors. valid_hex_color c"
  shows "interpolate_color colors 1 = hex_to_rgb (last colors)"
proof (cases "length colors = 1")
  case True
  then obtain c where "colors = [c]" by (cases colors) auto
  then show ?thesis by (simp add: interpolate_color_def py_index_def)
next
  case False
  from ne valid obtain r g b where lst: "hex_to_rgb (last colors) = Inr (r, g, b)"
    using hex_to_rgb_total [of "last colors"] by auto
  let ?n = "int (length colors) - 1"
  have m: "min (?n + 1) ?n = ?n" by simp
  have "interpolate_color colors 1 =
        bind (bind (py_index colors ?n) hex_to_rgb) (\<lambda>color1.
        bind (bind (py_index colors (min (?n + 1) ?n)) hex_to_rgb) (\<lambda>color2.
          case (color1, color2) of ((r1, g1, b1), (r2, g2, b2)) \<Rightarrow> Inr (r1, g1, b1)))"
    using False by (simp add: interpolate_color_def Let_def split_def py_int_pred)
  also have "\<dots> = Inr (r, g, b)"
    unfolding m by (simp add: py_index_last ne lst)
  finally show ?thesis by (simp add: lst)
qed

text \<open>
  Claim C1. For every list of one or more valid 6-hex-digit colours, \<^verbatim>\<open>_interpolate_color\<close>
  returns the first colour exactly for every ratio at most 0 and the last colour exactly for
  every ratio at least 1, the ratio being clamped to \<open>[0, 1]\<close> before the segment is chosen;
  for a list of one colour it returns that colour for every ratio. The colours returned are
  values, not errors.
\<close>

theorem interpolate_color_endpoints:
  assumes "colors \<noteq> []" and "\<forall>c \<in> set colors. valid_hex_color c"
  shows "(ratio \<le> 0 \<longrightarrow> interpolate_color colors ratio = hex_to_rgb (hd colors))
       \<and> (1 \<le> ratio \<longrightarrow> interpolate_color colors ratio = hex_to_rgb (last colors))
       \<and> (length colors = 1 \<longrightarrow> interpolate_color colors ratio = hex_to_rgb (hd colors))
       \<and> interpolate_color colors ratio = interpolate_color colors (max 0 (min 1 ratio))
       \<and> (\<exists>r g b. hex_to_rgb (hd colors) = Inr (r, g, b))
       \<and> (\<exists>r g b. hex_to_rgb (last colors) = Inr (r, g, b))"
proof (intro conjI impI)
  assume "ratio \<le> 0"
  then have "max 0 (min 1 ratio) = 0" by simp
  with interpolate_color_clamped [of colors ratio] interpolate_color_at_0 [OF assms]
  show "interpolate_color colors ratio = hex_to_rgb (hd colors)" by simp
next
  assume "1 \<le> ratio"
  then have "max 0 (min 1 ratio) = 1" by simp
  with interpolate_color_clamped [of colors ratio] interpolate_color_at_1 [OF assms]
  show "interpolate_color colors ratio = hex_to_rgb (last colors)" by simp
next
  assume "length colors = 1"
  with assms(1) show "interpolate_color colors ratio = hex_to_rgb (hd colors)"
    by (simp add: interpolate_color_def py_index_first)
next
  show "interpolate_color colors ratio = interpolate_color colors (max 0 (min 1 ratio))"
    by (rule interpolate_color_clamped)
next
  from assms show "\<exists>r g b. hex_to_rgb (hd colors) = Inr (r, g, b)"
    using hex_to_rgb_total [of "hd colors"] by auto
next
  from assms show "\<exists>r g b. hex_to_rgb (last colors) = Inr (r, g, b)"
    using hex_to_rgb_total [of "last colors"] by auto
qed

lemma hex_to_rgb_F5F5DC: "hex_to_rgb ''#F5F5DC'' = Inr (245, 245, 220)"
  by (simp add: hex_to_rgb_def py_slice_def slice_bound_def int_base16_def hex_digit_def)
lemma hex_to_rgb_4A7C59: "hex_to_rgb ''#4A7C59'' = Inr (74, 124, 89)"
  by (simp add: hex_to_rgb_def py_slice_def slice_bound_def int_base16_def hex_digit_def)

theorem interpolate_color_endpoints_witness:
  "[''#F5F5DC'', ''#4A7C59''] \<noteq> []
   \<and> valid_hex_color ''#F5F5DC'' \<and> valid_hex_color ''#4A7C59''
   \<and> interpolate_color [''#F5F5DC'', ''#4A7C59''] (- 1 / 4) = Inr (245, 245, 220)
   \<and> interpolate_color [''#F5F5DC'', ''#4A7C59''] (3 / 2) = Inr (74, 124, 89)"
proof -
  have ne: "[''#F5F5DC'', ''#4A7C59''] \<noteq> []" by simp
  have v1: "valid_hex_color ''#F5F5DC''" and v2: "valid_hex_color ''#4A7C59''"
    by (simp_all add: valid_hex_color_def hex_digit_def)
  then have valid: "\<forall>c \<in> set [''#F5F5DC'', ''#4A7C59'']. valid_hex_color c" by simp
  from interpolate_color_endpoints [OF ne valid, of "- 1 / 4"]
    interpolate_color_endpoints [OF ne valid, of "3 / 2"] v1 v2
  show ?thesis by (simp add: hex_to_rgb_F5F5DC hex_to_rgb_4A7C59)
qed

subsection \<open>Vertical text\<close>

lemma ceiling_tenth: "nat \<lceil>rat_of_nat n / 10\<rceil> = (n + 9) div 10"
proof -
  have "\<lceil>rat_of_int (int n) / rat_of_int 10\<rceil> = - (- int n div 10)"
    by (rule ceiling_divide_eq_div)
  then have a: "\<lceil>rat_of_nat n / 10\<rceil> = - (- int n div 10)" by simp
  have b: "- (- int n div 10) = (int n + 9) div 10" by linarith
  have c: "(int n + 9) div 10 = int ((n + 9) div 10)" by (simp add: zdiv_int)
  show ?thesis unfolding a b c by simp
qed

lemma take_min_length: "take (min (length xs) k) xs = take k xs"
  by (cases "k \<le> length xs") (simp_all add: min_def)

lemma py_slice_prefix: "py_slice xs 0 (int k) = take k xs"
  by (simp add: py_slice_def slice_bound_def take_min_length)

lemma py_slice_nat:
  "py_slice xs (int i) (int j) =
     take (min (length xs) j - min (length xs) i) (drop (min (length xs) i) xs)"
  by (simp add: py_slice_def slice_bound_def Let_def)

lemma vertical_layout_eq:
  "vertical_layout text0 =
     (take 30 text0, int (min (length text0) 30), int (min ((length text0 + 9) div 10) 3),
      if 30 < length text0 then [(WARNING, Vertical_text_truncated 30 30)] else [])"
proof (cases "30 < length text0")
  case True
  have "py_slice text0 0 30 = take 30 text0"
    using py_slice_prefix [of text0 30] by simp
  with True show ?thesis
    by (simp add: vertical_layout_def Let_def)
next
  case False
  let ?n = "length text0"
  have d: "(int ?n + 10 - 1) div 10 = int ((?n + 9) div 10)"
    by (simp add: zdiv_int)
  have pos: "text0 = [] \<or> min ((?n + 9) div 10) 3 \<noteq> 0"
    by (cases text0) (simp_all add: min_def)
  have m: "min (int ((?n + 9) div 10)) 3 = int (min ((?n + 9) div 10) 3)"
    by simp
  have "vertical_layout text0 =
          (text0, int ?n,
           (if int ?n > 0 \<and> min ((int ?n + 10 - 1) div 10) 3 = 0 then 1
            else min ((int ?n + 10 - 1) div 10) 3), [])"
    using False by (simp add: vertical_layout_def Let_def)
  also have "\<dots> = (text0, int ?n, int (min ((?n + 9) div 10) 3), [])"
    unfolding d m using pos by (cases "text0 = []") simp_all
  finally show ?thesis using False by simp
qed

lemma take_eqI:
  assumes "min a (length xs) = min b (length xs)"
  shows "take a xs = take b xs"
proof -
  have "take a xs = take (min (length xs) a) xs" by (simp only: take_min_length)
  also have "\<dots> = take (min (length xs) b) xs" using assms by (simp only: min.commute)
  also have "\<dots> = take b xs" by (rule take_min_length)
  finally show ?thesis .
qed

lemma column_chars_eq:
  assumes "col < min ((length text0 + 9) div 10) 3"
  shows "py_slice (take 30 text0) (int col * 10)
           (min (int col * 10 + 10) (int (min (length text0) 30)))
         = take 10 (drop (10 * col) text0)"
proof -
  let ?n = "length text0"
  let ?j = "min (10 * col + 10) (min ?n 30)"
  from assms have c: "col < 3" "10 * col < ?n" by auto
  have e1: "int col * 10 = int (10 * col)" by simp
  have e2: "min (int (10 * col) + 10) (int (min ?n 30)) = int ?j"
    by simp
  have a: "min (length (take 30 text0)) (10 * col) = 10 * col"
    using c by simp
  have "py_slice (take 30 text0) (int col * 10)
           (min (int col * 10 + 10) (int (min (length text0) 30)))
        = py_slice (take 30 text0) (int (10 * col)) (int ?j)"
    by (simp only: e1 e2)
  also have "\<dots> = take (min (length (take 30 text0)) ?j - 10 * col)
            (drop (10 * col) (take 30 text0))"
    unfolding py_slice_nat a ..
  also have "drop (10 * col) (take 30 text0) = take (30 - 10 * col) (drop (10 * col) text0)"
    by (simp add: drop_take)
  also have "take (min (length (take 30 text0)) ?j - 10 * col)
               (take (30 - 10 * col) (drop (10 * col) text0))
             = take 10 (drop (10 * col) text0)"
    unfolding take_take using c by (intro take_eqI) auto
  finally show ?thesis .
qed

lemma columns_concat:
  "concat (map (\<lambda>col. take 10 (drop (10 * col) text0)) [0 ..< min ((length text0 + 9) div 10) 3])
   = take 30 text0"
proof -
  let ?k = "min ((length text0 + 9) div 10) 3"
  have t2: "take 10 text0 @ take 10 (drop 10 text0) = take 20 text0"
    using take_add [of 10 10 text0] by simp
  have t3: "take 20 text0 @ take 10 (drop 20 text0) = take 30 text0"
    using take_add [of 20 10 text0] by simp
  have t23: "take 10 text0 @ take 10 (drop 10 text0) @ take 10 (drop 20 text0) = take 30 text0"
    unfolding append_assoc [symmetric] t2 t3 ..
  consider "?k = 0" | "?k = 1" | "?k = 2" | "?k = 3" by linarith
  then show ?thesis
  proof cases
    case 1
    then have "(length text0 + 9) div 10 = 0" by (simp add: min_def split: if_splits)
    then have "length text0 = 0" by arith
    with 1 show ?thesis by simp
  next
    case 2
    then have "length text0 \<le> 10" by (simp add: min_def split: if_splits)
    with 2 show ?thesis by simp
  next
    case 3
    then have "length text0 \<le> 20" by (simp add: min_def split: if_splits)
    have "[0 ..< 2] = [0, 1::nat]" by (simp add: upt_rec)
    with 3 \<open>length text0 \<le> 20\<close> t2 show ?thesis by simp
  next
    case 4
    have "[0 ..< 3] = [0, 1, 2::nat]" by (simp add: upt_rec)
    with 4 t23 show ?thesis by simp
  qed
qed

lemma vertical_column_eq:
  assumes "col < min ((length text0 + 9) div 10) 3"
  shows "vertical_column (take 30 text0) (int (min (length text0) 30)) x (max font_size 12)
           (font_size + 8) current_y color font_size (int col)
         = column_ops text0 x current_y font_size color col"
  using column_chars_eq [OF assms]
  by (simp add: vertical_column_def column_ops_def Let_def)

lemma vertical_text_columns_eq:
  "\<exists>x. vertical_text_columns text0 text_area current_y font_size color alignment
       = map (column_ops text0 x current_y font_size color)
           [0 ..< min ((length text0 + 9) div 10) 3]"
proof -
  let ?k = "min ((length text0 + 9) div 10) 3"
  let ?x = "case alignment of
              CENTER \<Rightarrow> x_start text_area + (area_width text_area - int ?k * max font_size 12) div 2
            | RIGHT \<Rightarrow> x_start text_area + area_width text_area - int ?k * max font_size 12
            | LEFT \<Rightarrow> x_start text_area"
  have "vertical_text_columns text0 text_area current_y font_size color alignment
        = map (\<lambda>col. vertical_column (take 30 text0) (int (min (length text0) 30)) ?x
                        (max font_size 12) (font_size + 8) current_y color font_size (int col))
            [0 ..< ?k]"
    by (simp add: vertical_text_columns_def vertical_layout_eq Let_def)
  also have "\<dots> = map (column_ops text0 ?x current_y font_size color) [0 ..< ?k]"
    by (rule map_cong [OF refl]) (simp add: vertical_column_eq)
  finally show ?thesis by blast
qed

lemma map_snd_singleton_enumerate:
  "map (\<lambda>p. [snd p]) (enumerate n xs) = map (\<lambda>ch. [ch]) xs"
  by (induction xs arbitrary: n) simp_all

lemma op_text_column_ops:
  "map op_text (column_ops text0 x current_y font_size color i)
   = map (\<lambda>ch. [ch]) (take 10 (drop (10 * i) text0))"
proof -
  have "map op_text (column_ops text0 x current_y font_size color i)
        = map (\<lambda>p. [snd p]) (enumerate 0 (take 10 (drop (10 * i) text0)))"
    by (simp add: column_ops_def split_def)
  then show ?thesis by (simp only: map_snd_singleton_enumerate)
qed

lemma op_text_columns:
  "map op_text (concat (map (column_ops text0 x current_y font_size color)
                          [0 ..< min ((length text0 + 9) div 10) 3]))
   = map (\<lambda>ch. [ch]) (take 30 text0)"
proof -
  let ?k = "min ((length text0 + 9) div 10) 3"
  have "map op_text (concat (map (column_ops text0 x current_y font_size color) [0 ..< ?k]))
        = concat (map (\<lambda>i. map (\<lambda>ch. [ch]) (take 10 (drop (10 * i) text0))) [0 ..< ?k])"
    by (simp add: map_concat comp_def op_text_column_ops)
  also have "\<dots> = map (\<lambda>ch. [ch])
                       (concat (map (\<lambda>i. take 10 (drop (10 * i) text0)) [0 ..< ?k]))"
    by (simp add: map_concat comp_def)
  finally show ?thesis by (simp only: columns_concat)
qed

lemma column_ops_length:
  assumes "i < min ((length text0 + 9) div 10) 3"
  shows "1 \<le> length (column_ops text0 x current_y font_size color i)
       \<and> length (column_ops text0 x current_y font_size color i) \<le> 10"
proof -
  from assms have "10 * i < length text0" by auto
  then show ?thesis by (simp add: column_ops_def)
qed

text \<open>
  Claim C2. For an input of \<open>n\<close> characters \<^verbatim>\<open>_draw_vertical_text\<close> draws exactly
  \<open>min n 30\<close> characters, the first \<open>min n 30\<close> of the input in order, arranged in
  \<open>min \<lceil>n / 10\<rceil> 3\<close> columns (at least one when \<open>n > 0\<close>), each column holding between
  1 and 10 characters, column \<open>i\<close> holding characters \<open>10 i\<close> onwards from top to bottom; a
  truncation warning is logged exactly when \<open>n > 30\<close>. In particular 35 characters give 3
  columns, 30 drawn characters and a warning, and 7 characters give one column with all 7.
\<close>

theorem draw_vertical_text_layout:
  fixes text0 :: "codepoint list" and text_area :: text_area and current_y font_size :: int
    and color :: string and alignment :: TextAlignment
  defines "cols \<equiv> vertical_text_columns text0 text_area current_y font_size color alignment"
    and "drawn \<equiv> draw_vertical_text text0 text_area current_y font_size color alignment"
  shows "fst drawn = concat cols
       \<and> length cols = min (nat \<lceil>rat_of_nat (length text0) / 10\<rceil>) 3
       \<and> (0 < length text0 \<longrightarrow> 1 \<le> length cols)
       \<and> (\<forall>c \<in> set cols. 1 \<le> length c \<and> length c \<le> 10)
       \<and> length (fst drawn) = min (length text0) 30
       \<and> map op_text (fst drawn) = map (\<lambda>ch. [ch]) (take 30 text0)
       \<and> ((\<exists>a b. (WARNING, Vertical_text_truncated a b) \<in> set (fst (snd drawn)))
            \<longleftrightarrow> 30 < length text0)
       \<and> (\<exists>x. \<forall>i < length cols.
              cols ! i =
                map (\<lambda>(row, ch).
                       Text (x + int i * max font_size 12, current_y + int row * (font_size + 8))
                         [ch] color font_size)
                    (enumerate 0 (take 10 (drop (10 * i) text0))))"
proof -
  let ?k = "min ((length text0 + 9) div 10) 3"
  obtain x where cols: "cols = map (column_ops text0 x current_y font_size color) [0 ..< ?k]"
    unfolding cols_def using vertical_text_columns_eq by blast
  have drawn: "fst drawn = concat cols"
    by (simp add: drawn_def cols_def draw_vertical_text_def vertical_layout_eq Let_def)
  have logged: "fst (snd drawn) =
      (if 30 < length text0 then [(WARNING, Vertical_text_truncated 30 30)] else [])
      @ [(INFO, Vertical_layout (int (min (length text0) 30)) (int ?k) 10 (max font_size 12))]"
    by (simp add: drawn_def draw_vertical_text_def vertical_layout_eq Let_def)
  have len: "length cols = ?k" by (simp add: cols)
  have texts: "map op_text (fst drawn) = map (\<lambda>ch. [ch]) (take 30 text0)"
    unfolding drawn cols by (rule op_text_columns)
  have "length (fst drawn) = length (map op_text (fst drawn))" by simp
  also have "\<dots> = min (length text0) 30" unfolding texts by simp
  finally have count: "length (fst drawn) = min (length text0) 30" .
  have pos: "0 < length text0 \<longrightarrow> 1 \<le> length cols"
    unfolding len by (cases text0) (simp_all add: min_def)
  have each: "\<forall>c \<in> set cols. 1 \<le> length c \<and> length c \<le> 10"
    unfolding cols using column_ops_length [of _ text0 x current_y font_size color] by auto
  have shape: "\<forall>i < length cols.
              cols ! i =
                map (\<lambda>(row, ch).
                       Text (x + int i * max font_size 12, current_y + int row * (font_size + 8))
                         [ch] color font_size)
                    (enumerate 0 (take 10 (drop (10 * i) text0)))"
    unfolding len by (simp add: cols column_ops_def)
  have warn: "(\<exists>a b. (WARNING, Vertical_text_truncated a b) \<in> set (fst (snd drawn)))
            \<longleftrightarrow> 30 < length text0"
    unfolding logged by simp
  from drawn len pos each count texts warn shape show ?thesis
    unfolding ceiling_tenth by blast
qed

theorem draw_vertical_text_layout_witness:
  "0 < length (map (\<lambda>i. 19968 + i) [0 ..< 35])
   \<and> length (vertical_text_columns (map (\<lambda>i. 19968 + i) [0 ..< 35])
        \<lparr>x_start = 20, y_start = 40, area_width = 300, area_height = 900\<rparr> 40 36 ''#333333'' CENTER) = 3
   \<and> length (fst (draw_vertical_text (map (\<lambda>i. 19968 + i) [0 ..< 35])
        \<lparr>x_start = 20, y_start = 40, area_width = 300, area_height = 900\<rparr> 40 36 ''#333333'' CENTER)) = 30
   \<and> (\<exists>a b. (WARNING, Vertical_text_truncated a b) \<in> set (fst (snd (draw_vertical_text
        (map (\<lambda>i. 19968 + i) [0 ..< 35])
        \<lparr>x_start = 20, y_start = 40, area_width = 300, area_height = 900\<rparr> 40 36 ''#333333'' CENTER))))
   \<and> length (vertical_text_columns (map (\<lambda>i. 19968 + i) [0 ..< 7])
        \<lparr>x_start = 20, y_start = 40, area_width = 300, area_height = 900\<rparr> 40 36 ''#333333'' CENTER) = 1
   \<and> map op_text (fst (draw_vertical_text (map (\<lambda>i. 19968 + i) [0 ..< 7])
        \<lparr>x_start = 20, y_start = 40, area_width = 300, area_height = 900\<rparr> 40 36 ''#333333'' CENTER))
       = map (\<lambda>ch. [ch]) (map (\<lambda>i. 19968 + i) [0 ..< 7])"
  using draw_vertical_text_layout [of "map (\<lambda>i. 19968 + i) [0 ..< 35]"
          "\<lparr>x_start = 20, y_start = 40, area_width = 300, area_height = 900\<rparr>" 40 36 "''#333333''" CENTER,
          unfolded ceiling_tenth]
        draw_vertical_text_layout [of "map (\<lambda>i. 19968 + i) [0 ..< 7]"
          "\<lparr>x_start = 20, y_start = 40, area_width = 300, area_height = 900\<rparr>" 40 36 "''#333333''" CENTER,
          unfolded ceiling_tenth]
  by - (elim conjE, simp)

subsection \<open>Decorative elements\<close>

lemma accent_total:
  assumes "colors \<noteq> []"
  shows "(if length colors > 1 then py_index colors 1 else py_index colors 0)
         = Inr (if length colors > 1 then colors ! 1 else colors ! 0)"
proof (cases "length colors > 1")
  case True
  then show ?thesis using py_index_nat [of 1 colors] by simp
next
  case False
  with assms show ?thesis using py_index_nat [of 0 colors] by simp
qed

lemma py_index_minus1: "xs \<noteq> [] \<Longrightarrow> py_index xs (- 1) = Inr (last xs)"
  by (cases xs rule: rev_cases) (simp_all add: py_index_def Let_def)

lemma add_decorative_elements_eq:
  assumes "colors \<noteq> []"
  shows "add_decorative_elements width height complexity colors =
     Inr ((if complexity \<ge> 2 then border_ops width height complexity colors else [])
        @ (if complexity \<ge> 3 then corner_ops width height colors else [])
        @ (if complexity \<ge> 4 then dot_ops width height colors else [])
        @ (if complexity \<ge> 5 then divider_ops width height colors else []))"
  unfolding add_decorative_elements_def accent_total [OF assms]
  by (simp add: Let_def py_index_minus1 assms accent_of_def dot_fill_of_def border_ops_def
      corner_ops_def dot_ops_def divider_ops_def)

lemma element_of_border_ops [simp]:
  "element_of ` set (border_ops width height complexity colors) = {Some Border}"
  by (simp add: border_ops_def)

lemma element_of_corner_ops [simp]:
  "element_of ` set (corner_ops width height colors) = {Some Corner_accent}"
  by (simp add: corner_ops_def)

lemma element_of_dot_ops [simp]:
  "element_of ` set (dot_ops width height colors) = {Some Dot_marker}"
  by (simp add: dot_ops_def)

lemma element_of_divider_ops [simp]:
  "element_of ` set (divider_ops width height colors) = {Some Divider}"
  by (simp add: divider_ops_def)

lemma decorative_none:
  assumes "colors \<noteq> []" and "complexity \<le> 1"
  shows "add_decorative_elements width height complexity colors = Inr []"
  using assms(2) by (simp add: add_decorative_elements_eq [OF assms(1)])

lemma decorative_all:
  assumes "colors \<noteq> []" and "5 \<le> complexity"
  shows "\<exists>ops. add_decorative_elements width height complexity colors = Inr ops
           \<and> element_of ` set ops
               = {Some Border, Some Corner_accent, Some Dot_marker, Some Divider}"
  using assms(2) by (auto simp add: add_decorative_elements_eq [OF assms(1)] image_Un)

lemma decorative_cumulative:
  assumes "colors \<noteq> []" and "k \<le> k'"
  shows "\<exists>ops ops'. add_decorative_elements width height k colors = Inr ops
           \<and> add_decorative_elements width height k' colors = Inr ops'
           \<and> element_of ` set ops \<subseteq> element_of ` set ops'
           \<and> (\<forall>op \<in> set ops. element_of op \<noteq> Some Border \<longrightarrow> op \<in> set ops')
           \<and> (\<forall>p q f out w. Rectangle p q f out w \<in> set ops \<longrightarrow>
                  (\<exists>w'. w \<le> w' \<and> Rectangle p q f out w' \<in> set ops'))"
proof -
  let ?ops = "\<lambda>c. (if c \<ge> 2 then border_ops width height c colors else [])
        @ (if c \<ge> 3 then corner_ops width height colors else [])
        @ (if c \<ge> 4 then dot_ops width height colors else [])
        @ (if c \<ge> 5 then divider_ops width height colors else [])"
  have els: "element_of ` set (?ops c) =
        (if c \<ge> 2 then {Some Border} else {}) \<union> (if c \<ge> 3 then {Some Corner_accent} else {})
        \<union> (if c \<ge> 4 then {Some Dot_marker} else {}) \<union> (if c \<ge> 5 then {Some Divider} else {})"
    for c
    by (simp add: image_Un)
  have cat: "element_of ` set (?ops k) \<subseteq> element_of ` set (?ops k')"
    unfolding els using assms(2) by auto
  have keep: "\<forall>op \<in> set (?ops k). element_of op \<noteq> Some Border \<longrightarrow> op \<in> set (?ops k')"
    using assms(2) by (auto simp add: border_ops_def)
  have border: "\<forall>p q f out w. Rectangle p q f out w \<in> set (?ops k) \<longrightarrow>
                  (\<exists>w'. w \<le> w' \<and> Rectangle p q f out w' \<in> set (?ops k'))"
    using assms(2)
    by (auto simp add: border_ops_def corner_ops_def dot_ops_def divider_ops_def)
  from cat keep border show ?thesis
    unfolding add_decorative_elements_eq [OF assms(1)] by blast
qed

text \<open>
  Claim C8. For a non-empty palette, the decorative-element generator draws nothing at
  complexity 1 (or below); at complexity 5 (or above) it draws elements of all four
  categories: border, corner accent, dot marker and divider; and the tiers are cumulative:
  for \<open>k \<le> k'\<close> every category drawn at tier \<open>k\<close> is drawn at tier \<open>k'\<close>, every corner, dot
  and divider command of tier \<open>k\<close> is drawn unchanged at tier \<open>k'\<close>, and the border of tier \<open>k\<close>
  is drawn at tier \<open>k'\<close> at the same place in the same colour, at least as thick.
\<close>

theorem decorative_elements_tiers:
  assumes "colors \<noteq> []"
  shows "(complexity \<le> 1 \<longrightarrow> add_decorative_elements width height complexity colors = Inr [])
       \<and> (5 \<le> complexity \<longrightarrow>
            (\<exists>ops. add_decorative_elements width height complexity colors = Inr ops
               \<and> element_of ` set ops
                   = {Some Border, Some Corner_accent, Some Dot_marker, Some Divider}))
       \<and> (k \<le> k' \<longrightarrow>
            (\<exists>ops ops'. add_decorative_elements width height k colors = Inr ops
               \<and> add_decorative_elements width height k' colors = Inr ops'
               \<and> element_of ` set ops \<subseteq> element_of ` set ops'
               \<and> (\<forall>op \<in> set ops. element_of op \<noteq> Some Border \<longrightarrow> op \<in> set ops')
               \<and> (\<forall>p q f out w. Rectangle p q f out w \<in> set ops \<longrightarrow>
                      (\<exists>w'. w \<le> w' \<and> Rectangle p q f out w' \<in> set ops'))))"
  using decorative_none [OF assms] decorative_all [OF assms] decorative_cumulative [OF assms]
  by blast

text \<open>
  Claim C5, as amended. At complexity 4 or above and for a non-empty palette, the dot
  markers are exactly four ellipses of radius 4 around the points 20 pixels from each
  corner, filled with the last palette colour when the palette has at least 3 entries
  (which is the colour at index 2 for a palette of exactly 3) and otherwise with the
  accent colour (\<^verbatim>\<open>colors[1]\<close> if present, else \<^verbatim>\<open>colors[0]\<close>).
\<close>

theorem corner_dots_fill:
  assumes "colors \<noteq> []" and "4 \<le> complexity"
  shows "\<exists>ops. add_decorative_elements width height complexity colors = Inr ops
           \<and> filter (\<lambda>op. element_of op = Some Dot_marker) ops
               = map (\<lambda>(x, y). Ellipse (x - 4, y - 4) (x + 4, y + 4)
                        (if 3 \<le> length colors then last colors
                         else if 2 \<le> length colors then colors ! 1 else colors ! 0))
                   [(20, 20), (width - 20, 20), (20, height - 20), (width - 20, height - 20)]
           \<and> (length colors = 3 \<longrightarrow> last colors = colors ! 2)"
proof -
  have "length colors = 3 \<longrightarrow> last colors = colors ! 2"
    using assms(1) by (simp add: last_conv_nth)
  moreover have "(if 3 \<le> length colors then last colors
                  else if 2 \<le> length colors then colors ! 1 else colors ! 0) = dot_fill_of colors"
    by (auto simp: dot_fill_of_def accent_of_def)
  ultimately show ?thesis
    using assms(2)
    by (simp add: add_decorative_elements_eq [OF assms(1)] border_ops_def corner_ops_def
        dot_ops_def divider_ops_def)
qed

theorem decorative_elements_tiers_witness:
  "[''#F5F5DC'', ''#4A7C59''] \<noteq> [] \<and> (1::int) \<le> 1 \<and> (5::int) \<le> 5 \<and> (2::int) \<le> 4
   \<and> add_decorative_elements 170 510 1 [''#F5F5DC'', ''#4A7C59''] = Inr []
   \<and> (\<exists>ops. add_decorative_elements 170 510 5 [''#F5F5DC'', ''#4A7C59''] = Inr ops
          \<and> element_of ` set ops = {Some Border, Some Corner_accent, Some Dot_marker, Some Divider})
   \<and> (\<exists>ops ops'. add_decorative_elements 170 510 2 [''#F5F5DC'', ''#4A7C59''] = Inr ops
          \<and> add_decorative_elements 170 510 4 [''#F5F5DC'', ''#4A7C59''] = Inr ops'
          \<and> element_of ` set ops \<subseteq> element_of ` set ops')"
proof -
  have ne: "[''#F5F5DC'', ''#4A7C59''] \<noteq> []" by simp
  note low = decorative_elements_tiers [where colors = "[''#F5F5DC'', ''#4A7C59'']"
          and complexity = 1 and width = 170 and height = 510 and k = 2 and k' = 4, OF ne]
  note high = decorative_elements_tiers [where colors = "[''#F5F5DC'', ''#4A7C59'']"
          and complexity = 5 and width = 170 and height = 510 and k = 2 and k' = 4, OF ne]
  from low have none: "add_decorative_elements 170 510 1 [''#F5F5DC'', ''#4A7C59''] = Inr []"
    by simp
  from high have all: "\<exists>ops. add_decorative_elements 170 510 5 [''#F5F5DC'', ''#4A7C59''] = Inr ops
          \<and> element_of ` set ops = {Some Border, Some Corner_accent, Some Dot_marker, Some Divider}"
    by simp
  from low have cum: "\<exists>ops ops'. add_decorative_elements 170 510 2 [''#F5F5DC'', ''#4A7C59''] = Inr ops
          \<and> add_decorative_elements 170 510 4 [''#F5F5DC'', ''#4A7C59''] = Inr ops'
          \<and> element_of ` set ops \<subseteq> element_of ` set ops'"
    by (elim conjE) (simp; blast)
  from none all cum show ?thesis by simp
qed

theorem corner_dots_fill_witness:
  "[''#F5F5DC'', ''#4A7C59'', ''#C9A66B''] \<noteq> [] \<and> (4::int) \<le> 4
   \<and> (\<exists>ops. add_decorative_elements 170 510 4 [''#F5F5DC'', ''#4A7C59'', ''#C9A66B''] = Inr ops
          \<and> filter (\<lambda>op. element_of op = Some Dot_marker) ops
              = [Ellipse (16, 16) (24, 24) ''#C9A66B'', Ellipse (146, 16) (154, 24) ''#C9A66B'',
                 Ellipse (16, 486) (24, 494) ''#C9A66B'', Ellipse (146, 486) (154, 494) ''#C9A66B''])"
proof -
  have ne: "[''#F5F5DC'', ''#4A7C59'', ''#C9A66B''] \<noteq> []" by simp
  have tier: "(4::int) \<le> 4" by simp
  from corner_dots_fill [where colors = "[''#F5F5DC'', ''#4A7C59'', ''#C9A66B'']"
          and complexity = 4 and width = 170 and height = 510, OF ne tier]
  show ?thesis by simp
qed

text \<open>
  With a palette of four colours the dots are filled with the colour at index 3, not with
  the colour at index 2.
\<close>

theorem corner_dots_fill_counterexample:
  "add_decorative_elements 170 510 4 [''#F5F5DC'', ''#4A7C59'', ''#C9A66B'', ''#2F2F2F'']
     = Inr [Rectangle (10, 10) (159, 499) None (Some ''#4A7C59'') 3,
            Line [(0, 15), (0, 0), (15, 0)] ''#4A7C59'' 2,
            Line [(155, 0), (169, 0), (169, 15)] ''#4A7C59'' 2,
            Line [(0, 494), (0, 509), (15, 509)] ''#4A7C59'' 2,
            Line [(154, 509), (169, 509), (169, 494)] ''#4A7C59'' 2,
            Ellipse (16, 16) (24, 24) ''#2F2F2F'',
            Ellipse (146, 16) (154, 24) ''#2F2F2F'',
            Ellipse (16, 486) (24, 494) ''#2F2F2F'',
            Ellipse (146, 486) (154, 494) ''#2F2F2F'']
   \<and> [''#F5F5DC'', ''#4A7C59'', ''#C9A66B'', ''#2F2F2F''] ! 2 = ''#C9A66B''
   \<and> ''#2F2F2F'' \<noteq> ''#C9A66B''"
  by (simp add: add_decorative_elements_def py_index_def Let_def)

subsection \<open>Image fitting\<close>

lemma py_int_nonneg: "0 \<le> x \<Longrightarrow> 0 \<le> py_int x"
  by (simp add: py_int_def)

lemma crop_size:
  assumes "left \<le> right" and "upper \<le> lower"
  shows "\<exists>c. crop im (left, upper, right, lower) = Inr c
           \<and> im_size c = (right - left, lower - upper)"
  using assms by (simp add: crop_def)

lemma resize_size:
  assumes "1 \<le> w" and "1 \<le> h"
  shows "\<exists>r. resize im (w, h) = Inr r \<and> im_size r = (w, h)"
  using assms by (simp add: resize_def)

text \<open>
  Claim C3. For every source image of width and height at least 1 and every target width
  and height at least 1, \<^verbatim>\<open>_fit_image_to_zone\<close> returns an image, and the image has exactly
  the target size.
\<close>

theorem fit_image_to_zone_size:
  assumes size: "im_size im = (w, h)" and "1 \<le> w" and "1 \<le> h"
    and tw: "1 \<le> target_width" and th: "1 \<le> target_height"
  shows "\<exists>fitted. fit_image_to_zone im target_width target_height = Inr fitted
           \<and> im_size fitted = (target_width, target_height)"
proof -
  let ?tr = "rat_of_int target_width / rat_of_int target_height"
  let ?ir = "rat_of_int w / rat_of_int h"
  have tr: "py_truediv target_width target_height = Inr ?tr"
    using th by (simp add: py_truediv_def)
  have ir: "py_truediv w h = Inr ?ir"
    using assms(3) by (simp add: py_truediv_def)
  have tr_pos: "0 < ?tr" using tw th by simp
  show ?thesis
  proof (cases "\<bar>?tr - ?ir\<bar> < 1 / 10")
    case True
    with resize_size [OF tw th, of im] show ?thesis
      by (simp add: fit_image_to_zone_def size tr ir)
  next
    case far: False
    show ?thesis
    proof (cases "?ir > ?tr")
      case True
      let ?nw = "py_int (rat_of_int h * ?tr)"
      let ?left = "(w - ?nw) div 2"
      have "0 \<le> rat_of_int h" using assms(3) by simp
      then have "0 \<le> rat_of_int h * ?tr" using tr_pos by (intro mult_nonneg_nonneg) simp_all
      then have "0 \<le> ?nw" by (rule py_int_nonneg)
      then have "?left \<le> ?left + ?nw" by simp
      from crop_size [OF this, of 0 h im] assms(3)
      obtain c where c: "crop im (?left, 0, ?left + ?nw, h) = Inr c" by auto
      from resize_size [OF tw th, of c] c far True show ?thesis
        by (simp add: fit_image_to_zone_def size tr ir Let_def)
    next
      case False
      let ?nh = "py_int (rat_of_int w / ?tr)"
      let ?top = "(h - ?nh) div 2"
      have q: "py_fdiv (rat_of_int w) ?tr = Inr (rat_of_int w / ?tr)"
        using tw th by (simp add: py_fdiv_def)
      have "0 \<le> rat_of_int w" using assms(2) by simp
      then have "0 \<le> rat_of_int w / ?tr" using tr_pos by (intro divide_nonneg_pos)
      then have "0 \<le> ?nh" by (rule py_int_nonneg)
      then have "?top \<le> ?top + ?nh" by simp
      from crop_size [OF _ this, of 0 w im] assms(2)
      obtain c where c: "crop im (0, ?top, w, ?top + ?nh) = Inr c" by auto
      from resize_size [OF tw th, of c] c far False q show ?thesis
        by (simp add: fit_image_to_zone_def size tr ir Let_def)
    qed
  qed
qed

theorem fit_image_to_zone_size_witness:
  "im_size (Decoded (400, 300) 7) = (400, 300) \<and> (1::int) \<le> 400 \<and> (1::int) \<le> 300
   \<and> (1::int) \<le> 708 \<and> (1::int) \<le> 2125
   \<and> (\<exists>fitted. fit_image_to_zone (Decoded (400, 300) 7) 708 2125 = Inr fitted
          \<and> im_size fitted = (708, 2125))
   \<and> (\<exists>fitted. fit_image_to_zone (Decoded (3, 1) 8) 1 2 = Inr fitted
          \<and> im_size fitted = (1, 2))"
proof -
  have a: "im_size (Decoded (400, 300) 7) = (400, 300)" and b: "im_size (Decoded (3, 1) 8) = (3, 1)"
    by simp_all
  from fit_image_to_zone_size [OF a, of 708 2125] fit_image_to_zone_size [OF b, of 1 2]
  show ?thesis by simp
qed

subsection \<open>Preview dimensions\<close>

lemma round_literal: "round_binary64 (254 / 10) = Finite (3574732204225331 / 140737488355328)"
  by code_simp

lemma bookmark_size_px_preview_default: "bookmark_size_px_preview default_settings = Inr (170, 510)"
  by code_simp

lemma bookmark_size_px_final_default: "bookmark_size_px_final default_settings = Inr (708, 2125)"
  by code_simp

lemma bleed_px_final_default: "bleed_px_final default_settings = Inr 35"
  by code_simp

lemma safe_margin_px_final_default: "safe_margin_px_final default_settings = Inr 59"
  by code_simp

lemma mm_to_px_default_width: "mm_to_px (round_binary64 60) 72 = Inr (Finite (5984113678100561 / 35184372088832))"
  by code_simp

lemma pow2_pos: "0 < pow2 e"
  by (simp add: pow2_def)

lemma round_half_even_nonneg: "0 \<le> x \<Longrightarrow> 0 \<le> round_half_even x"
  by (auto simp: round_half_even_def Let_def)

lemma round_binary64_nonneg:
  assumes "0 \<le> x" and "round_binary64 x = Finite y"
  shows "0 \<le> y"
proof (cases "x = 0")
  case True
  with assms show ?thesis by (simp add: round_binary64_def)
next
  case False
  define e where "e = max (floor_log2 \<bar>x\<bar> - 52) (- 1074)"
  have "0 \<le> \<bar>x\<bar> / pow2 e" using pow2_pos [of e] by simp
  then have "0 \<le> round_half_even (\<bar>x\<bar> / pow2 e)" by (rule round_half_even_nonneg)
  then have "0 \<le> rat_of_int (round_half_even (\<bar>x\<bar> / pow2 e)) * pow2 e"
    using pow2_pos [of e] by simp
  with assms False show ?thesis
    by (auto simp: round_binary64_def Let_def e_def split: if_splits)
qed

lemma round_binary64_nonneg_cases:
  assumes "0 \<le> x"
  shows "(\<exists>y. round_binary64 x = Finite y \<and> 0 \<le> y) \<or> round_binary64 x = PosInf"
proof (cases "round_binary64 x")
  case (Finite y)
  with round_binary64_nonneg [OF assms] show ?thesis by simp
next
  case NegInf
  with assms show ?thesis by (auto simp: round_binary64_def Let_def split: if_splits)
next
  case NaN
  then show ?thesis by (auto simp: round_binary64_def Let_def split: if_splits)
qed simp

lemma py_int_floor: "0 \<le> x \<Longrightarrow> py_int x = \<lfloor>x\<rfloor>"
  by (simp add: py_int_def)

lemma Image_new_size: "Image_new ok sz c = Inr im \<Longrightarrow> im_size im = sz"
  by (auto simp: Image_new_def split: if_splits)

lemma bind_eq_Inr: "bind m f = Inr y \<longleftrightarrow> (\<exists>x. m = Inr x \<and> f x = Inr y)"
  by (cases m) simp_all

lemma float_of_int_nonneg:
  assumes "0 \<le> n" and "float_of_int n = Inr d"
  shows "\<exists>y. d = Finite y \<and> 0 \<le> y"
proof (cases "round_binary64 (rat_of_int n)")
  case (Finite y)
  have "0 \<le> rat_of_int n" using assms(1) by simp
  from round_binary64_nonneg [OF this Finite] assms(2) Finite show ?thesis
    by (auto simp: float_of_int_def)
qed (use assms(2) in \<open>simp_all add: float_of_int_def\<close>)

lemma mm_to_px_nonneg:
  assumes "0 \<le> mm" and "0 \<le> dpi" and "mm_to_px (round_binary64 mm) dpi = Inr (Finite x)"
  shows "0 \<le> x"
proof -
  let ?c = "3574732204225331 / 140737488355328 :: rat"
  from assms(3) have "bind (float_truediv (round_binary64 mm) (Finite ?c)) (\<lambda>inches.
                         bind (float_of_int dpi) (\<lambda>dots. Inr (float_mul inches dots)))
                      = Inr (Finite x)"
    unfolding mm_to_px_def round_literal .
  then obtain inches dots
    where q: "float_truediv (round_binary64 mm) (Finite ?c) = Inr inches"
      and d: "float_of_int dpi = Inr dots"
      and m: "float_mul inches dots = Finite x"
    unfolding bind_eq_Inr by auto
  from float_of_int_nonneg [OF assms(2) d] obtain dv where dv: "dots = Finite dv" "0 \<le> dv"
    by blast
  from round_binary64_nonneg_cases [OF assms(1)]
  have "(\<exists>qv. inches = Finite qv \<and> 0 \<le> qv) \<or> inches = PosInf"
  proof
    assume "\<exists>y. round_binary64 mm = Finite y \<and> 0 \<le> y"
    then obtain y where y: "round_binary64 mm = Finite y" "0 \<le> y" by blast
    then have "0 \<le> y / ?c" by simp
    from round_binary64_nonneg_cases [OF this] q y show ?thesis
      by (auto simp: float_truediv_def)
  next
    assume "round_binary64 mm = PosInf"
    with q show ?thesis by (simp add: float_truediv_def infinity_of_sign_def)
  qed
  then show ?thesis
  proof
    assume "\<exists>qv. inches = Finite qv \<and> 0 \<le> qv"
    then obtain qv where qv: "inches = Finite qv" "0 \<le> qv" by blast
    with dv have "0 \<le> qv * dv" by simp
    from round_binary64_nonneg [OF this] m qv dv show ?thesis
      by (simp add: float_mul_def)
  next
    assume "inches = PosInf"
    with m dv show ?thesis
      by (auto simp: float_mul_def infinity_of_sign_def split: if_splits)
  qed
qed

lemma bookmark_size_px_preview_eq:
  assumes "bookmark_size_px_preview s = Inr (w, h)"
  shows "\<exists>x y. mm_to_px (round_binary64 (BOOKMARK_WIDTH_MM s)) (PREVIEW_DPI s) = Inr (Finite x)
             \<and> mm_to_px (round_binary64 (BOOKMARK_HEIGHT_MM s)) (PREVIEW_DPI s) = Inr (Finite y)
             \<and> w = py_int x \<and> h = py_int y"
proof -
  from assms obtain a b
    where a: "mm_to_px (round_binary64 (BOOKMARK_WIDTH_MM s)) (PREVIEW_DPI s) = Inr a"
      and w: "int_of_float a = Inr w"
      and b: "mm_to_px (round_binary64 (BOOKMARK_HEIGHT_MM s)) (PREVIEW_DPI s) = Inr b"
      and h: "int_of_float b = Inr h"
    unfolding bookmark_size_px_preview_def bind_eq_Inr by auto
  from w obtain x where "a = Finite x" "w = py_int x"
    by (cases a) (simp_all add: int_of_float_def)
  moreover from h obtain y where "b = Finite y" "h = py_int y"
    by (cases b) (simp_all add: int_of_float_def)
  ultimately show ?thesis using a b by simp
qed

lemma bookmark_size_px_preview_floor:
  assumes "0 \<le> BOOKMARK_WIDTH_MM s" and "0 \<le> BOOKMARK_HEIGHT_MM s" and "0 \<le> PREVIEW_DPI s"
    and "bookmark_size_px_preview s = Inr (w, h)"
  shows "\<exists>x y. mm_to_px (round_binary64 (BOOKMARK_WIDTH_MM s)) (PREVIEW_DPI s) = Inr (Finite x)
             \<and> mm_to_px (round_binary64 (BOOKMARK_HEIGHT_MM s)) (PREVIEW_DPI s) = Inr (Finite y)
             \<and> w = \<lfloor>x\<rfloor> \<and> h = \<lfloor>y\<rfloor> \<and> 0 \<le> w \<and> 0 \<le> h"
proof -
  from bookmark_size_px_preview_eq [OF assms(4)] obtain x y
    where x: "mm_to_px (round_binary64 (BOOKMARK_WIDTH_MM s)) (PREVIEW_DPI s) = Inr (Finite x)"
      and y: "mm_to_px (round_binary64 (BOOKMARK_HEIGHT_MM s)) (PREVIEW_DPI s) = Inr (Finite y)"
      and wh: "w = py_int x" "h = py_int y"
    by blast
  have "0 \<le> x" by (rule mm_to_px_nonneg [OF assms(1) assms(3) x])
  moreover have "0 \<le> y" by (rule mm_to_px_nonneg [OF assms(2) assms(3) y])
  ultimately show ?thesis using x y wh by (auto simp: py_int_floor)
qed

lemma draw_commands_size: "draw_commands ok im ops = Inr drawn \<Longrightarrow> im_size drawn = im_size im"
  by (auto simp: draw_commands_def split: if_splits)

lemma generate_preview_returns_size:
  assumes "generate_preview env st fs mood complexity colors layout = (Inr (path, w, h), fs')"
  shows "bookmark_size_px_preview (env_settings env) = Inr (w, h)
       \<and> (\<exists>im. fs' path = Some (Png_file im (PREVIEW_DPI (env_settings env)))
              \<and> im_size im = (w, h))"
proof -
  note run = assms [unfolded generate_preview_def]
  from run obtain width height
    where sz: "bookmark_size_px_preview (env_settings env) = Inr (width, height)"
    by (cases "bookmark_size_px_preview (env_settings env)") auto
  from run obtain base
    where base: "bind (py_index colors 0) (Image_new (env_color_ok env) (width, height)) = Inr base"
    by (cases "bind (py_index colors 0) (Image_new (env_color_ok env) (width, height))")
       (simp_all add: sz)
  from run obtain layout_ops
    where lay: "apply_layout st width height layout colors True = Inr layout_ops"
    by (cases "apply_layout st width height layout colors True") (simp_all add: sz base)
  from run obtain drawn
    where deco: "bind (add_decorative_elements width height complexity colors)
                   (draw_commands (env_draw_ok env) (Draw base layout_ops)) = Inr drawn"
    by (cases "bind (add_decorative_elements width height complexity colors)
                 (draw_commands (env_draw_ok env) (Draw base layout_ops))")
       (simp_all add: sz base lay)
  from run have saved: "fs' = fs(path \<mapsto> Png_file drawn (PREVIEW_DPI (env_settings env)))"
    and wh: "w = width" "h = height"
    by (auto simp: sz base lay deco Let_def save_def split: if_splits)
  from base have "im_size base = (width, height)"
    by (auto simp: bind_eq_Inr dest: Image_new_size)
  with deco have "im_size drawn = (width, height)"
    by (auto simp: bind_eq_Inr dest: draw_commands_size)
  with saved wh sz show ?thesis by simp
qed

lemma generate_preview_returns:
  assumes sz: "bookmark_size_px_preview (env_settings env) = Inr (width, height)"
    and "0 \<le> width" and "0 \<le> height"
    and ne: "colors \<noteq> []" and ok: "env_color_ok env (colors ! 0)"
    and lay: "apply_layout st width height layout colors True = Inr layout_ops"
    and deco: "add_decorative_elements width height complexity colors = Inr deco_ops"
    and acc: "list_all (env_draw_ok env) deco_ops"
    and wr: "env_writable env
               (DOWNLOAD_DIR (env_settings env) @ ''/'' @ ''preview_'' @ take 8 (env_uuid_hex env)
                  @ ''.png'')"
  shows "\<exists>path fs'. generate_preview env st fs mood complexity colors layout
                      = (Inr (path, width, height), fs')"
proof -
  from ne have "py_index colors 0 = Inr (colors ! 0)"
    using py_index_nat [of 0 colors] by simp
  with ok assms(2,3)
  have base: "bind (py_index colors 0) (Image_new (env_color_ok env) (width, height))
              = Inr (New (width, height) (colors ! 0))"
    by (simp add: Image_new_def)
  show ?thesis
    using wr acc by (simp add: generate_preview_def sz base lay deco Let_def save_def draw_commands_def)
qed

text \<open>
  Claim C9, as amended. For a configured size and preview DPI that are not negative,
  whenever \<^verbatim>\<open>generate_preview\<close> returns, the returned width and height are what
  \<^verbatim>\<open>settings.bookmark_size_px_preview\<close> computes, namely the floor of the binary64 value of
  \<^verbatim>\<open>(mm / 25.4) * dpi\<close> for the configured width and height, and the saved image has
  exactly that size. Two calls under the same settings return the same dimensions,
  whatever their mood, complexity, palette and layout. The call does return, with these
  dimensions, when the palette is non-empty, Pillow accepts its first colour and every
  decoration command, the layout stage does not raise and the file can be written. With
  the defaults (60 mm by 180 mm at 72 DPI) the size is 170 by 510 pixels.
\<close>

theorem generate_preview_dimensions:
  assumes W: "0 \<le> BOOKMARK_WIDTH_MM (env_settings env)"
    and H: "0 \<le> BOOKMARK_HEIGHT_MM (env_settings env)"
    and D: "0 \<le> PREVIEW_DPI (env_settings env)"
  shows "(\<forall>path w h fs'.
            generate_preview env st fs mood complexity colors layout = (Inr (path, w, h), fs') \<longrightarrow>
              bookmark_size_px_preview (env_settings env) = Inr (w, h)
            \<and> (\<exists>x y. mm_to_px (round_binary64 (BOOKMARK_WIDTH_MM (env_settings env)))
                         (PREVIEW_DPI (env_settings env)) = Inr (Finite x)
                   \<and> mm_to_px (round_binary64 (BOOKMARK_HEIGHT_MM (env_settings env)))
                         (PREVIEW_DPI (env_settings env)) = Inr (Finite y)
                   \<and> w = \<lfloor>x\<rfloor> \<and> h = \<lfloor>y\<rfloor>)
            \<and> (\<exists>im. fs' path = Some (Png_file im (PREVIEW_DPI (env_settings env)))
                   \<and> im_size im = (w, h)))
       \<and> (\<forall>env' st' fs0 mood' complexity' colors' layout' path w h fs' path' w' h' fs''.
            env_settings env' = env_settings env
            \<and> generate_preview env st fs mood complexity colors layout = (Inr (path, w, h), fs')
            \<and> generate_preview env' st' fs0 mood' complexity' colors' layout'
                = (Inr (path', w', h'), fs'')
            \<longrightarrow> w' = w \<and> h' = h)
       \<and> (\<forall>w h layout_ops deco_ops.
            bookmark_size_px_preview (env_settings env) = Inr (w, h)
            \<and> colors \<noteq> [] \<and> env_color_ok env (colors ! 0)
            \<and> apply_layout st w h layout colors True = Inr layout_ops
            \<and> add_decorative_elements w h complexity colors = Inr deco_ops
            \<and> list_all (env_draw_ok env) deco_ops
            \<and> env_writable env
                 (DOWNLOAD_DIR (env_settings env) @ ''/'' @ ''preview_''
                    @ take 8 (env_uuid_hex env) @ ''.png'')
            \<longrightarrow> (\<exists>path fs'.
                   generate_preview env st fs mood complexity colors layout
                   = (Inr (path, w, h), fs')))
       \<and> bookmark_size_px_preview default_settings = Inr (170, 510)"
proof (intro conjI allI impI)
  fix path w h fs'
  assume run: "generate_preview env st fs mood complexity colors layout = (Inr (path, w, h), fs')"
  note sz = generate_preview_returns_size [OF run]
  from sz show "bookmark_size_px_preview (env_settings env) = Inr (w, h)" by (rule conjunct1)
  from sz show "\<exists>im. fs' path = Some (Png_file im (PREVIEW_DPI (env_settings env)))
                     \<and> im_size im = (w, h)"
    by (rule conjunct2)
  from bookmark_size_px_preview_floor [OF W H D sz [THEN conjunct1]]
  show "\<exists>x y. mm_to_px (round_binary64 (BOOKMARK_WIDTH_MM (env_settings env)))
                  (PREVIEW_DPI (env_settings env)) = Inr (Finite x)
             \<and> mm_to_px (round_binary64 (BOOKMARK_HEIGHT_MM (env_settings env)))
                  (PREVIEW_DPI (env_settings env)) = Inr (Finite y)
             \<and> w = \<lfloor>x\<rfloor> \<and> h = \<lfloor>y\<rfloor>"
    by blast
next
  fix env' :: environment and st' fs0 mood' complexity' colors' layout' path w h fs' path' w' h' fs''
  assume both: "env_settings env' = env_settings env
            \<and> generate_preview env st fs mood complexity colors layout = (Inr (path, w, h), fs')
            \<and> generate_preview env' st' fs0 mood' complexity' colors' layout'
                = (Inr (path', w', h'), fs'')"
  then have "bookmark_size_px_preview (env_settings env) = Inr (w, h)"
    and "bookmark_size_px_preview (env_settings env) = Inr (w', h')"
    using generate_preview_returns_size [of env st fs mood complexity colors layout path w h fs']
      generate_preview_returns_size [of env' st' fs0 mood' complexity' colors' layout' path' w' h' fs'']
    by simp_all
  then show "w' = w" and "h' = h" by simp_all
next
  fix w h layout_ops deco_ops
  assume pre: "bookmark_size_px_preview (env_settings env) = Inr (w, h)
            \<and> colors \<noteq> [] \<and> env_color_ok env (colors ! 0)
            \<and> apply_layout st w h layout colors True = Inr layout_ops
            \<and> add_decorative_elements w h complexity colors = Inr deco_ops
            \<and> list_all (env_draw_ok env) deco_ops
            \<and> env_writable env
                 (DOWNLOAD_DIR (env_settings env) @ ''/'' @ ''preview_''
                    @ take 8 (env_uuid_hex env) @ ''.png'')"
  then have sz: "bookmark_size_px_preview (env_settings env) = Inr (w, h)" by (rule conjunct1)
  from bookmark_size_px_preview_floor [OF W H D sz] have nonneg: "0 \<le> w" "0 \<le> h" by auto
  from pre have ne: "colors \<noteq> []" and ok: "env_color_ok env (colors ! 0)"
    and lay: "apply_layout st w h layout colors True = Inr layout_ops"
    and deco: "add_decorative_elements w h complexity colors = Inr deco_ops"
    and acc: "list_all (env_draw_ok env) deco_ops"
    and wr: "env_writable env
               (DOWNLOAD_DIR (env_settings env) @ ''/'' @ ''preview_''
                  @ take 8 (env_uuid_hex env) @ ''.png'')"
    by blast+
  show "\<exists>path fs'. generate_preview env st fs mood complexity colors layout
                       = (Inr (path, w, h), fs')"
    by (rule generate_preview_returns [OF sz nonneg ne ok lay deco acc wr])
next
  show "bookmark_size_px_preview default_settings = Inr (170, 510)"
    by (rule bookmark_size_px_preview_default)
qed

lemma example_env_fields:
  "env_settings (example_env c) = default_settings"
  "env_color_ok (example_env c) = valid_hex_color"
  "env_draw_ok (example_env c) = example_draw_ok"
  "env_writable (example_env c) = c"
  "env_uuid_hex (example_env c) = ''0123456789abcdef0123456789abcdef''"
  "env_timestamp (example_env c) = ''20240101_120000''"
  by (simp_all add: example_env_def)

lemma default_settings_fields:
  "BOOKMARK_WIDTH_MM default_settings = 60"
  "BOOKMARK_HEIGHT_MM default_settings = 180"
  "BLEED_MM default_settings = 3"
  "SAFE_MARGIN_MM default_settings = 5"
  "PREVIEW_DPI default_settings = 72"
  "FINAL_DPI default_settings = 300"
  "DOWNLOAD_DIR default_settings = ''downloads''"
  by (simp_all add: default_settings_def)

lemma example_stages_fields:
  "apply_layout example_stages = (\<lambda>width height layout colors is_preview. Inr [])"
  "draw_background example_stages = (\<lambda>im background. Inr (Draw im []))"
  "add_user_text example_stages = (\<lambda>width height layout text colors rich_text text_position. [])"
  by (simp_all add: example_stages_def)

lemma valid_hex_color_examples:
  "valid_hex_color ''#F5F5DC''" "valid_hex_color ''#4A7C59''"
  by (simp_all add: valid_hex_color_def hex_digit_def)

lemma mm_to_px_default_height:
  "mm_to_px (round_binary64 180) 72 = Inr (Finite (4488085258575421 / 8796093022208))"
  by code_simp

lemma example_preview_run1:
  "fst (generate_preview (example_env (\<lambda>p. True)) example_stages Map.empty WARM 3
          [''#F5F5DC'', ''#4A7C59''] LAYOUT_HORIZONTAL)
   = Inr (''downloads/preview_01234567.png'', 170, 510)"
  by (simp add: generate_preview_def example_env_fields example_stages_fields
      bookmark_size_px_preview_default add_decorative_elements_eq py_index_def Image_new_def
      valid_hex_color_examples save_def default_settings_fields Let_def draw_commands_def
      border_ops_def corner_ops_def accent_of_def)

lemma example_preview_run2:
  "fst (generate_preview (example_env (\<lambda>p. True)) example_stages Map.empty ELEGANT 5
          [''#4A7C59''] LAYOUT_MOSAIC)
   = Inr (''downloads/preview_01234567.png'', 170, 510)"
  by (simp add: generate_preview_def example_env_fields example_stages_fields
      bookmark_size_px_preview_default add_decorative_elements_eq py_index_def Image_new_def
      valid_hex_color_examples save_def default_settings_fields Let_def draw_commands_def
      border_ops_def corner_ops_def dot_ops_def divider_ops_def accent_of_def dot_fill_of_def)

theorem generate_preview_dimensions_witness:
  "(0::rat) \<le> BOOKMARK_WIDTH_MM (env_settings (example_env (\<lambda>p. True)))
   \<and> (0::rat) \<le> BOOKMARK_HEIGHT_MM (env_settings (example_env (\<lambda>p. True)))
   \<and> (0::int) \<le> PREVIEW_DPI (env_settings (example_env (\<lambda>p. True)))
   \<and> fst (generate_preview (example_env (\<lambda>p. True)) example_stages Map.empty WARM 3
             [''#F5F5DC'', ''#4A7C59''] LAYOUT_HORIZONTAL)
       = Inr (''downloads/preview_01234567.png'', 170, 510)
   \<and> fst (generate_preview (example_env (\<lambda>p. True)) example_stages Map.empty ELEGANT 5
             [''#4A7C59''] LAYOUT_MOSAIC)
       = Inr (''downloads/preview_01234567.png'', 170, 510)
   \<and> mm_to_px (round_binary64 60) 72 = Inr (Finite (5984113678100561 / 35184372088832))
   \<and> mm_to_px (round_binary64 180) 72 = Inr (Finite (4488085258575421 / 8796093022208))
   \<and> \<lfloor>5984113678100561 / 35184372088832 :: rat\<rfloor> = (170::int)
   \<and> \<lfloor>4488085258575421 / 8796093022208 :: rat\<rfloor> = (510::int)"
proof -
  let ?env = "example_env (\<lambda>p. True)"
  have W: "0 \<le> BOOKMARK_WIDTH_MM (env_settings ?env)"
    and H: "0 \<le> BOOKMARK_HEIGHT_MM (env_settings ?env)"
    and D: "0 \<le> PREVIEW_DPI (env_settings ?env)"
    by (simp_all add: example_env_fields default_settings_fields)
  obtain fs' where full: "generate_preview ?env example_stages Map.empty WARM 3
               [''#F5F5DC'', ''#4A7C59''] LAYOUT_HORIZONTAL
             = (Inr (''downloads/preview_01234567.png'', 170, 510), fs')"
    using example_preview_run1
    by (cases "generate_preview ?env example_stages Map.empty WARM 3
               [''#F5F5DC'', ''#4A7C59''] LAYOUT_HORIZONTAL") simp
  from generate_preview_dimensions [OF W H D, of example_stages Map.empty WARM 3
      "[''#F5F5DC'', ''#4A7C59'']" LAYOUT_HORIZONTAL, THEN conjunct1, rule_format, OF full]
  obtain x y where x: "mm_to_px (round_binary64 (BOOKMARK_WIDTH_MM (env_settings ?env)))
                         (PREVIEW_DPI (env_settings ?env)) = Inr (Finite x)"
    and y: "mm_to_px (round_binary64 (BOOKMARK_HEIGHT_MM (env_settings ?env)))
                         (PREVIEW_DPI (env_settings ?env)) = Inr (Finite y)"
    and fl: "170 = \<lfloor>x\<rfloor>" "510 = \<lfloor>y\<rfloor>"
    by blast
  from x have "x = 5984113678100561 / 35184372088832"
    unfolding example_env_fields default_settings_fields mm_to_px_default_width
    by (simp only: sum.inject py_float.inject)
  moreover from y have "y = 4488085258575421 / 8796093022208"
    unfolding example_env_fields default_settings_fields mm_to_px_default_height
    by (simp only: sum.inject py_float.inject)
  ultimately have "\<lfloor>5984113678100561 / 35184372088832 :: rat\<rfloor> = (170::int)"
    and "\<lfloor>4488085258575421 / 8796093022208 :: rat\<rfloor> = (510::int)"
    using fl by (simp_all only:)
  with W H D example_preview_run1 example_preview_run2 mm_to_px_default_width
    mm_to_px_default_height
  show ?thesis by blast
qed

text \<open>
  The dimensions are not the floor of the exact quotient: at 64.77 mm and 100 DPI the
  exact value of \<open>mm / 25.4 \<times> dpi\<close> is 255, the float product is just below it and the
  preview is 254 pixels wide.
\<close>

lemma bookmark_size_px_preview_6477:
  "bookmark_size_px_preview (default_settings\<lparr>BOOKMARK_WIDTH_MM := 6477 / 100, PREVIEW_DPI := 100\<rparr>)
   = Inr (254, 708)"
  by code_simp

theorem generate_preview_floor_counterexample:
  "fst (generate_preview
          (example_env (\<lambda>p. True)
             \<lparr>env_settings := default_settings\<lparr>BOOKMARK_WIDTH_MM := 6477 / 100, PREVIEW_DPI := 100\<rparr>\<rparr>)
          example_stages Map.empty WARM 3 [''#F5F5DC'', ''#4A7C59''] LAYOUT_HORIZONTAL)
     = Inr (''downloads/preview_01234567.png'', 254, 708)
   \<and> \<lfloor>(6477 / 100 :: rat) / (254 / 10) * of_int 100\<rfloor> = (255::int)"
  by (simp add: generate_preview_def example_env_def example_stages_fields
      bookmark_size_px_preview_6477 add_decorative_elements_eq py_index_def Image_new_def
      valid_hex_color_examples save_def default_settings_fields Let_def draw_commands_def
      border_ops_def corner_ops_def accent_of_def)

subsection \<open>Final output\<close>

lemma output_paths_differ: "png_filepath env \<noteq> pdf_filepath env"
  by (simp add: png_filepath_def pdf_filepath_def)

lemma save_cases:
  "save can_write fs path f = (if can_write path then Inr (fs(path \<mapsto> f)) else Inl OSError)"
  by (simp add: save_def)

lemma generate_final_success:
  assumes "generate_final env st fs request photo = (Inr (png, pdf), fs')"
  shows "png = png_filepath env \<and> pdf = pdf_filepath env \<and> png \<noteq> pdf
       \<and> (\<exists>im logged. generate_final_image env st fs request photo = Inr (im, logged)
              \<and> fs' png = Some (Png_file im (FINAL_DPI (env_settings env)))
              \<and> fs' pdf = Some (Pdf_file im (FINAL_DPI (env_settings env))))"
  using assms output_paths_differ [of env]
  by (auto simp: generate_final_def save_cases split: sum.splits if_splits prod.splits)




lemma example_request_fields:
  "req_colors example_request = [''#F5F5DC'', ''#4A7C59'']"
  "req_complexity example_request = 3"
  "req_layout example_request = LAYOUT_HORIZONTAL"
  "req_user_text example_request = []"
  "req_rich_text example_request = None"
  "req_background example_request = None"
  "req_text_position example_request = None"
  "req_show_borders example_request = False"
  by (simp_all add: example_request_def)


lemma example_paths:
  "png_filepath (example_env c) = ''downloads/bookmark_20240101_120000_0123456789ab.png''"
  "pdf_filepath (example_env c) = ''downloads/bookmark_20240101_120000_0123456789ab.pdf''"
  by (simp_all add: png_filepath_def pdf_filepath_def example_env_fields default_settings_fields)





subsection \<open>A user photo as the background\<close>

lemma photo_branch:
  assumes "p \<noteq> []" and "fs p \<noteq> None"
  shows "generate_final_background env st fs request (Some p) content cw ch =
           (case bind (Image_open fs p) (\<lambda>user_photo. fit_image_to_zone user_photo cw ch) of
              Inr fitted_photo \<Rightarrow>
                Inr (Paste content fitted_photo (0, 0),
                     [(INFO, Photo_background_applied (im_size fitted_photo))])
            | Inl e \<Rightarrow> Inr (content, [(ERROR, Photo_background_error e)]))"
  using assms by (simp add: generate_final_background_def)

lemma photo_branch_request:
  assumes "p \<noteq> []" and "fs p \<noteq> None"
  shows "generate_final_background env st fs (request\<lparr>req_background := b\<rparr>) (Some p) content cw ch
         = generate_final_background env st fs request (Some p) content cw ch"
  by (simp only: photo_branch [where p = p and fs = fs, OF assms])

lemma photo_branch_stage:
  assumes "p \<noteq> []" and "fs p \<noteq> None"
  shows "generate_final_background env (st\<lparr>draw_background := d\<rparr>) fs request (Some p) content cw ch
         = generate_final_background env st fs request (Some p) content cw ch"
  by (simp only: photo_branch [where p = p and fs = fs, OF assms])

lemma photo_branch_env:
  assumes "p \<noteq> []" and "fs p \<noteq> None"
  shows "generate_final_background (env\<lparr>env_uuid_hex := u, env_timestamp := t\<rparr>) st fs request
           (Some p) content cw ch
         = generate_final_background env st fs request (Some p) content cw ch"
  by (simp only: photo_branch [where p = p and fs = fs, OF assms])

lemma final_image_request:
  assumes "p \<noteq> []" and "fs p \<noteq> None"
  shows "generate_final_image env st fs (request\<lparr>req_background := b\<rparr>) (Some p)
         = generate_final_image env st fs request (Some p)"
  by (simp add: generate_final_image_def photo_branch_request [where p = p and fs = fs, OF assms]
      cong: if_cong)

lemma final_image_stage:
  assumes "p \<noteq> []" and "fs p \<noteq> None"
  shows "generate_final_image env (st\<lparr>draw_background := d\<rparr>) fs request (Some p)
         = generate_final_image env st fs request (Some p)"
  by (simp add: generate_final_image_def photo_branch_stage [where p = p and fs = fs, OF assms]
      cong: if_cong)

lemma final_image_env:
  assumes "p \<noteq> []" and "fs p \<noteq> None"
  shows "generate_final_image (env\<lparr>env_uuid_hex := u, env_timestamp := t\<rparr>) st fs request (Some p)
         = generate_final_image env st fs request (Some p)"
  by (simp add: generate_final_image_def photo_branch_env [where p = p and fs = fs, OF assms]
      cong: if_cong)

lemma fit_image_to_zone_result:
  assumes "fit_image_to_zone im tw th = Inr fitted"
  shows "im_size fitted = (tw, th)"
proof -
  have r: "resize src (tw, th) = Inr fitted \<Longrightarrow> im_size fitted = (tw, th)" for src
    by (auto simp: resize_def split: if_splits)
  from assms show ?thesis
    unfolding fit_image_to_zone_def Let_def
    by (auto simp: bind_eq_Inr dest: r split: if_splits)
qed

text \<open>The final image of a call with an existing photo path, once the sizes are known.\<close>

lemma final_image_photo:
  assumes p: "p \<noteq> []" and ex: "fs p \<noteq> None"
    and bleed: "bleed_px_final (env_settings env) = Inr bleed"
    and size: "bookmark_size_px_final (env_settings env) = Inr (cw, ch)"
    and run: "generate_final_image env st fs request (Some p) = Inr (im, logged)"
  defines "base \<equiv> New (cw + 2 * bleed, ch + 2 * bleed) (req_colors request ! 0)"
  defines "cropped \<equiv> Crop base (bleed, bleed, bleed + cw, bleed + ch)"
  defines "text_ops \<equiv> add_user_text st cw ch (req_layout request) (req_user_text request)
                        (req_colors request) (req_rich_text request) (req_text_position request)"
  shows "\<exists>background content.
           im = Paste base content (bleed, bleed)
         \<and> generate_final_background env st fs request (Some p) cropped cw ch
             = Inr (background, logged)
         \<and> (if req_show_borders request
            then \<exists>deco_ops. add_decorative_elements cw ch (req_complexity request)
                               (req_colors request) = Inr deco_ops
                           \<and> content = Draw (Draw background text_ops) deco_ops
            else content = Draw background text_ops)"
proof -
  note run1 = run [unfolded generate_final_image_def bleed bind_Inr]
  from run1 obtain safe_margin where sm: "safe_margin_px_final (env_settings env) = Inr safe_margin"
    by (cases "safe_margin_px_final (env_settings env)") simp_all
  note run2 = run1 [unfolded sm bind_Inr size prod.case Let_def]
  from run2 obtain b where b: "bind (py_index (req_colors request) 0)
          (Image_new (env_color_ok env) (cw + 2 * bleed, ch + 2 * bleed)) = Inr b"
    by (cases "bind (py_index (req_colors request) 0)
          (Image_new (env_color_ok env) (cw + 2 * bleed, ch + 2 * bleed))") simp_all
  then have "b = base"
    by (auto simp: bind_eq_Inr py_index_def Image_new_def base_def split: if_splits)
  note run3 = run2 [unfolded b bind_Inr \<open>b = base\<close>]
  from run3 obtain c where c: "crop base (bleed, bleed, bleed + cw, bleed + ch) = Inr c"
    by (cases "crop base (bleed, bleed, bleed + cw, bleed + ch)") simp_all
  then have "c = cropped" by (auto simp: crop_def cropped_def split: if_splits)
  note run4 = run3 [unfolded c bind_Inr \<open>c = cropped\<close>]
  from run4 obtain background lg
    where bg: "generate_final_background env st fs request (Some p) cropped cw ch
               = Inr (background, lg)"
    by (cases "generate_final_background env st fs request (Some p) cropped cw ch") auto
  note run5 = run4 [unfolded bg bind_Inr prod.case, folded text_ops_def]
  show ?thesis
  proof (cases "req_show_borders request")
    case True
    with run5 obtain deco_ops
      where "add_decorative_elements cw ch (req_complexity request) (req_colors request)
             = Inr deco_ops"
        and "im = Paste base (Draw (Draw background text_ops) deco_ops) (bleed, bleed)"
        and "logged = lg"
      by (auto simp: bind_eq_Inr draw_commands_def split: if_splits)
    with True bg show ?thesis by auto
  next
    case False
    with run5 have "im = Paste base (Draw background text_ops) (bleed, bleed)" and "logged = lg"
      by simp_all
    with False bg show ?thesis by auto
  qed
qed

text \<open>
  Claim C7, as amended. With a user photo path that is non-empty and exists:
  \<^item> a request that differs only in its background, or another background stage, gives
    the same result and files in the same environment;
  \<^item> two calls that return, with any uuid and time of their own and requests that
    differ only in their background, save the same image in their PNG and PDF files;
  \<^item> when the photo opens and \<^verbatim>\<open>_fit_image_to_zone\<close> fits it to the content size, the image
    that \<^verbatim>\<open>generate_final\<close> saves is the canvas with the content pasted at the bleed
    offset, the content being the crop of the content area with the fitted photo, which
    has the size of the content area, pasted at its origin, then the text and, with
    \<^verbatim>\<open>show_borders\<close>, the decorations;
  \<^item> when opening or fitting raises, the exception is logged and the saved image is built
    in the same way from the crop of the canvas, with no photo pasted.
\<close>

theorem generate_final_photo_background:
  assumes p: "p \<noteq> []" and ex: "fs p \<noteq> None"
  shows "generate_final env st fs (request\<lparr>req_background := b\<rparr>) (Some p)
           = generate_final env st fs request (Some p)
       \<and> generate_final env (st\<lparr>draw_background := d\<rparr>) fs request (Some p)
           = generate_final env st fs request (Some p)
       \<and> (\<forall>u t png pdf fs1 png' pdf' fs2.
             generate_final env st fs request (Some p) = (Inr (png, pdf), fs1)
             \<and> generate_final (env\<lparr>env_uuid_hex := u, env_timestamp := t\<rparr>) st fs
                 (request\<lparr>req_background := b\<rparr>) (Some p) = (Inr (png', pdf'), fs2)
             \<longrightarrow> (\<exists>im. fs1 png = Some (Png_file im (FINAL_DPI (env_settings env)))
                      \<and> fs2 png' = Some (Png_file im (FINAL_DPI (env_settings env)))
                      \<and> fs1 pdf = Some (Pdf_file im (FINAL_DPI (env_settings env)))
                      \<and> fs2 pdf' = Some (Pdf_file im (FINAL_DPI (env_settings env)))))
       \<and> (\<forall>png pdf fs' bleed cw ch photo fitted.
             generate_final env st fs request (Some p) = (Inr (png, pdf), fs')
             \<and> bleed_px_final (env_settings env) = Inr bleed
             \<and> bookmark_size_px_final (env_settings env) = Inr (cw, ch)
             \<and> Image_open fs p = Inr photo
             \<and> fit_image_to_zone photo cw ch = Inr fitted
             \<longrightarrow> im_size fitted = (cw, ch)
               \<and> (let base = New (cw + 2 * bleed, ch + 2 * bleed) (req_colors request ! 0);
                       content_image = Crop base (bleed, bleed, bleed + cw, bleed + ch);
                       text_ops = add_user_text st cw ch (req_layout request)
                                    (req_user_text request) (req_colors request)
                                    (req_rich_text request) (req_text_position request)
                   in im_size content_image = (cw, ch)
                    \<and> (\<exists>content.
                          fs' png = Some (Png_file (Paste base content (bleed, bleed))
                                            (FINAL_DPI (env_settings env)))
                        \<and> fs' pdf = Some (Pdf_file (Paste base content (bleed, bleed))
                                            (FINAL_DPI (env_settings env)))
                        \<and> (if req_show_borders request
                           then \<exists>deco_ops.
                                  add_decorative_elements cw ch (req_complexity request)
                                    (req_colors request) = Inr deco_ops
                                \<and> content = Draw (Draw (Paste content_image fitted (0, 0)) text_ops)
                                              deco_ops
                           else content = Draw (Paste content_image fitted (0, 0)) text_ops))))
       \<and> (\<forall>png pdf fs' bleed cw ch e.
             generate_final env st fs request (Some p) = (Inr (png, pdf), fs')
             \<and> bleed_px_final (env_settings env) = Inr bleed
             \<and> bookmark_size_px_final (env_settings env) = Inr (cw, ch)
             \<and> bind (Image_open fs p) (\<lambda>photo. fit_image_to_zone photo cw ch) = Inl e
             \<longrightarrow> (\<exists>im. generate_final_image env st fs request (Some p)
                         = Inr (im, [(ERROR, Photo_background_error e)]))
               \<and> (let base = New (cw + 2 * bleed, ch + 2 * bleed) (req_colors request ! 0);
                       content_image = Crop base (bleed, bleed, bleed + cw, bleed + ch);
                       text_ops = add_user_text st cw ch (req_layout request)
                                    (req_user_text request) (req_colors request)
                                    (req_rich_text request) (req_text_position request)
                   in \<exists>content.
                          fs' png = Some (Png_file (Paste base content (bleed, bleed))
                                            (FINAL_DPI (env_settings env)))
                        \<and> fs' pdf = Some (Pdf_file (Paste base content (bleed, bleed))
                                            (FINAL_DPI (env_settings env)))
                        \<and> (if req_show_borders request
                           then \<exists>deco_ops.
                                  add_decorative_elements cw ch (req_complexity request)
                                    (req_colors request) = Inr deco_ops
                                \<and> content = Draw (Draw content_image text_ops) deco_ops
                           else content = Draw content_image text_ops)))"
proof (intro conjI allI impI)
  show "generate_final env st fs (request\<lparr>req_background := b\<rparr>) (Some p)
          = generate_final env st fs request (Some p)"
    by (simp add: generate_final_def final_image_request [where p = p and fs = fs, OF p ex])
  show "generate_final env (st\<lparr>draw_background := d\<rparr>) fs request (Some p)
          = generate_final env st fs request (Some p)"
    by (simp add: generate_final_def final_image_stage [where p = p and fs = fs, OF p ex])
next
  fix u t png pdf fs1 png' pdf' fs2
  assume both: "generate_final env st fs request (Some p) = (Inr (png, pdf), fs1)
             \<and> generate_final (env\<lparr>env_uuid_hex := u, env_timestamp := t\<rparr>) st fs
                 (request\<lparr>req_background := b\<rparr>) (Some p) = (Inr (png', pdf'), fs2)"
  from both generate_final_success [of env st fs request "Some p" png pdf fs1]
  obtain im logged where im: "generate_final_image env st fs request (Some p) = Inr (im, logged)"
    and f1: "fs1 png = Some (Png_file im (FINAL_DPI (env_settings env)))"
            "fs1 pdf = Some (Pdf_file im (FINAL_DPI (env_settings env)))"
    by blast
  from both generate_final_success [of "env\<lparr>env_uuid_hex := u, env_timestamp := t\<rparr>" st fs
      "request\<lparr>req_background := b\<rparr>" "Some p" png' pdf' fs2]
  obtain im' logged'
    where "generate_final_image (env\<lparr>env_uuid_hex := u, env_timestamp := t\<rparr>) st fs
             (request\<lparr>req_background := b\<rparr>) (Some p) = Inr (im', logged')"
      and f2: "fs2 png' = Some (Png_file im' (FINAL_DPI (env_settings env)))"
              "fs2 pdf' = Some (Pdf_file im' (FINAL_DPI (env_settings env)))"
    by auto
  then have "im' = im"
    using im
    by (simp add: final_image_env [where p = p and fs = fs, OF p ex]
        final_image_request [where p = p and fs = fs, OF p ex])
  with f1 f2
  show "\<exists>im. fs1 png = Some (Png_file im (FINAL_DPI (env_settings env)))
           \<and> fs2 png' = Some (Png_file im (FINAL_DPI (env_settings env)))
           \<and> fs1 pdf = Some (Pdf_file im (FINAL_DPI (env_settings env)))
           \<and> fs2 pdf' = Some (Pdf_file im (FINAL_DPI (env_settings env)))"
    by blast
next
  fix png pdf fs' bleed cw ch photo fitted
  assume pre: "generate_final env st fs request (Some p) = (Inr (png, pdf), fs')
             \<and> bleed_px_final (env_settings env) = Inr bleed
             \<and> bookmark_size_px_final (env_settings env) = Inr (cw, ch)
             \<and> Image_open fs p = Inr photo
             \<and> fit_image_to_zone photo cw ch = Inr fitted"
  then have run: "generate_final env st fs request (Some p) = (Inr (png, pdf), fs')"
    and bleed: "bleed_px_final (env_settings env) = Inr bleed"
    and size: "bookmark_size_px_final (env_settings env) = Inr (cw, ch)"
    and opened: "Image_open fs p = Inr photo"
    and fit: "fit_image_to_zone photo cw ch = Inr fitted"
    by blast+
  show "im_size fitted = (cw, ch)" by (rule fit_image_to_zone_result [OF fit])
  let ?base = "New (cw + 2 * bleed, ch + 2 * bleed) (req_colors request ! 0)"
  let ?content_image = "Crop ?base (bleed, bleed, bleed + cw, bleed + ch)"
  from generate_final_success [OF run]
  obtain im logged where im: "generate_final_image env st fs request (Some p) = Inr (im, logged)"
    and files: "fs' png = Some (Png_file im (FINAL_DPI (env_settings env)))"
               "fs' pdf = Some (Pdf_file im (FINAL_DPI (env_settings env)))"
    by blast
  have bg: "generate_final_background env st fs request (Some p) ?content_image cw ch
            = Inr (Paste ?content_image fitted (0, 0),
                   [(INFO, Photo_background_applied (im_size fitted))])"
    by (simp add: photo_branch [where p = p and fs = fs, OF p ex] opened fit)
  from final_image_photo [OF p ex bleed size im] bg files
  show "let base = New (cw + 2 * bleed, ch + 2 * bleed) (req_colors request ! 0);
            content_image = Crop base (bleed, bleed, bleed + cw, bleed + ch);
            text_ops = add_user_text st cw ch (req_layout request)
                         (req_user_text request) (req_colors request)
                         (req_rich_text request) (req_text_position request)
        in im_size content_image = (cw, ch)
         \<and> (\<exists>content.
               fs' png = Some (Png_file (Paste base content (bleed, bleed))
                                 (FINAL_DPI (env_settings env)))
             \<and> fs' pdf = Some (Pdf_file (Paste base content (bleed, bleed))
                                 (FINAL_DPI (env_settings env)))
             \<and> (if req_show_borders request
                then \<exists>deco_ops.
                       add_decorative_elements cw ch (req_complexity request)
                         (req_colors request) = Inr deco_ops
                     \<and> content = Draw (Draw (Paste content_image fitted (0, 0)) text_ops)
                                   deco_ops
                else content = Draw (Paste content_image fitted (0, 0)) text_ops))"
    by (auto simp: Let_def split: if_splits)
next
  fix png pdf fs' bleed cw ch e
  assume pre: "generate_final env st fs request (Some p) = (Inr (png, pdf), fs')
             \<and> bleed_px_final (env_settings env) = Inr bleed
             \<and> bookmark_size_px_final (env_settings env) = Inr (cw, ch)
             \<and> bind (Image_open fs p) (\<lambda>photo. fit_image_to_zone photo cw ch) = Inl e"
  then have run: "generate_final env st fs request (Some p) = (Inr (png, pdf), fs')"
    and bleed: "bleed_px_final (env_settings env) = Inr bleed"
    and size: "bookmark_size_px_final (env_settings env) = Inr (cw, ch)"
    and failed: "bind (Image_open fs p) (\<lambda>photo. fit_image_to_zone photo cw ch) = Inl e"
    by blast+
  let ?base = "New (cw + 2 * bleed, ch + 2 * bleed) (req_colors request ! 0)"
  let ?content_image = "Crop ?base (bleed, bleed, bleed + cw, bleed + ch)"
  from generate_final_success [OF run]
  obtain im logged where im: "generate_final_image env st fs request (Some p) = Inr (im, logged)"
    and files: "fs' png = Some (Png_file im (FINAL_DPI (env_settings env)))"
               "fs' pdf = Some (Pdf_file im (FINAL_DPI (env_settings env)))"
    by blast
  have bg: "generate_final_background env st fs request (Some p) ?content_image cw ch
            = Inr (?content_image, [(ERROR, Photo_background_error e)])"
    by (simp add: photo_branch [where p = p and fs = fs, OF p ex] failed)
  from final_image_photo [OF p ex bleed size im] bg im
  show "\<exists>im. generate_final_image env st fs request (Some p)
               = Inr (im, [(ERROR, Photo_background_error e)])"
    by auto
  from final_image_photo [OF p ex bleed size im] bg files
  show "let base = New (cw + 2 * bleed, ch + 2 * bleed) (req_colors request ! 0);
            content_image = Crop base (bleed, bleed, bleed + cw, bleed + ch);
            text_ops = add_user_text st cw ch (req_layout request)
                         (req_user_text request) (req_colors request)
                         (req_rich_text request) (req_text_position request)
        in \<exists>content.
               fs' png = Some (Png_file (Paste base content (bleed, bleed))
                                 (FINAL_DPI (env_settings env)))
             \<and> fs' pdf = Some (Pdf_file (Paste base content (bleed, bleed))
                                 (FINAL_DPI (env_settings env)))
             \<and> (if req_show_borders request
                then \<exists>deco_ops.
                       add_decorative_elements cw ch (req_complexity request)
                         (req_colors request) = Inr deco_ops
                     \<and> content = Draw (Draw content_image text_ops) deco_ops
                else content = Draw content_image text_ops)"
    by (auto simp: Let_def split: if_splits)
qed

lemma example_fit:
  "fit_image_to_zone (Decoded (400, 300) 7) 708 2125
   = Inr (Resize (Crop (Decoded (400, 300) 7) (150, 0, 249, 300)) (708, 2125))"
  by code_simp

lemma example_photo_fs_simps:
  "example_photo_fs ''uploads/photo.jpg'' = Some (Image_file (Decoded (400, 300) 7))"
  "Image_open example_photo_fs ''uploads/photo.jpg'' = Inr (Decoded (400, 300) 7)"
  by (simp_all add: example_photo_fs_def Image_open_def)

lemma example_photo_image_run:
  "generate_final_image (example_env c) example_stages example_photo_fs example_request
     (Some ''uploads/photo.jpg'')
   = Inr (example_photo_image, [(INFO, Photo_background_applied (708, 2125))])"
  by (simp add: generate_final_image_def generate_final_background_def example_env_fields
      example_stages_fields example_request_fields bookmark_size_px_final_default
      bleed_px_final_default safe_margin_px_final_default py_index_def Image_new_def
      valid_hex_color_examples crop_def example_photo_fs_simps example_fit
      example_photo_image_def Let_def)

lemma example_photo_run:
  "generate_final (example_env (\<lambda>path. True)) example_stages example_photo_fs example_request
     (Some ''uploads/photo.jpg'')
   = (Inr (''downloads/bookmark_20240101_120000_0123456789ab.png'',
           ''downloads/bookmark_20240101_120000_0123456789ab.pdf''),
      example_photo_fs
        (''downloads/bookmark_20240101_120000_0123456789ab.png'' \<mapsto> Png_file example_photo_image 300,
         ''downloads/bookmark_20240101_120000_0123456789ab.pdf'' \<mapsto> Pdf_file example_photo_image 300))"
  by (simp add: generate_final_def example_photo_image_run save_cases example_paths
      example_env_fields default_settings_fields)

lemma other_call_run:
  "generate_final other_call_env example_stages example_photo_fs
     (example_request\<lparr>req_background := Some example_background\<rparr>) (Some ''uploads/photo.jpg'')
   = (Inr (''downloads/bookmark_20240202_130000_fedcba987654.png'',
           ''downloads/bookmark_20240202_130000_fedcba987654.pdf''),
      example_photo_fs
        (''downloads/bookmark_20240202_130000_fedcba987654.png'' \<mapsto> Png_file example_photo_image 300,
         ''downloads/bookmark_20240202_130000_fedcba987654.pdf'' \<mapsto> Pdf_file example_photo_image 300))"
proof -
  have ex: "example_photo_fs ''uploads/photo.jpg'' \<noteq> None" by (simp add: example_photo_fs_simps)
  have "generate_final_image other_call_env example_stages example_photo_fs
          (example_request\<lparr>req_background := Some example_background\<rparr>) (Some ''uploads/photo.jpg'')
        = Inr (example_photo_image, [(INFO, Photo_background_applied (708, 2125))])"
    unfolding other_call_env_def
    by (simp add: final_image_env [where fs = example_photo_fs, OF _ ex]
        final_image_request [where fs = example_photo_fs, OF _ ex] example_photo_image_run)
  then show ?thesis
    by (simp add: generate_final_def save_cases png_filepath_def pdf_filepath_def
        other_call_env_def example_env_fields default_settings_fields)
qed

theorem generate_final_photo_background_witness:
  "''uploads/photo.jpg'' \<noteq> []
   \<and> example_photo_fs ''uploads/photo.jpg'' \<noteq> None
   \<and> generate_final (example_env (\<lambda>path. True)) example_stages example_photo_fs
         (example_request\<lparr>req_background := Some example_background\<rparr>) (Some ''uploads/photo.jpg'')
       = generate_final (example_env (\<lambda>path. True)) example_stages example_photo_fs
           example_request (Some ''uploads/photo.jpg'')
   \<and> fst (generate_final (example_env (\<lambda>path. True)) example_stages example_photo_fs
            example_request (Some ''uploads/photo.jpg''))
       = Inr (''downloads/bookmark_20240101_120000_0123456789ab.png'',
              ''downloads/bookmark_20240101_120000_0123456789ab.pdf'')
   \<and> fst (generate_final other_call_env example_stages example_photo_fs
            (example_request\<lparr>req_background := Some example_background\<rparr>)
            (Some ''uploads/photo.jpg''))
       = Inr (''downloads/bookmark_20240202_130000_fedcba987654.png'',
              ''downloads/bookmark_20240202_130000_fedcba987654.pdf'')
   \<and> (\<exists>im. snd (generate_final (example_env (\<lambda>path. True)) example_stages example_photo_fs
                   example_request (Some ''uploads/photo.jpg''))
               ''downloads/bookmark_20240101_120000_0123456789ab.png'' = Some (Png_file im 300)
          \<and> snd (generate_final other_call_env example_stages example_photo_fs
                   (example_request\<lparr>req_background := Some example_background\<rparr>)
                   (Some ''uploads/photo.jpg''))
               ''downloads/bookmark_20240202_130000_fedcba987654.png'' = Some (Png_file im 300))
   \<and> fit_image_to_zone (Decoded (400, 300) 7) 708 2125
       = Inr (Resize (Crop (Decoded (400, 300) 7) (150, 0, 249, 300)) (708, 2125))
   \<and> snd (generate_final (example_env (\<lambda>path. True)) example_stages example_photo_fs
            example_request (Some ''uploads/photo.jpg''))
         ''downloads/bookmark_20240101_120000_0123456789ab.png''
       = Some (Png_file
                 (Paste (New (778, 2195) ''#F5F5DC'')
                    (Draw (Paste (Crop (New (778, 2195) ''#F5F5DC'') (35, 35, 743, 2160))
                             (Resize (Crop (Decoded (400, 300) 7) (150, 0, 249, 300)) (708, 2125))
                             (0, 0))
                       [])
                    (35, 35))
                 300)"
proof -
  let ?env = "example_env (\<lambda>path. True)"
  let ?p = "''uploads/photo.jpg''"
  let ?png = "''downloads/bookmark_20240101_120000_0123456789ab.png''"
  let ?pdf = "''downloads/bookmark_20240101_120000_0123456789ab.pdf''"
  let ?png' = "''downloads/bookmark_20240202_130000_fedcba987654.png''"
  let ?pdf' = "''downloads/bookmark_20240202_130000_fedcba987654.pdf''"
  let ?fitted = "Resize (Crop (Decoded (400, 300) 7) (150, 0, 249, 300)) (708, 2125)"
  have p: "?p \<noteq> []" by simp
  have ex: "example_photo_fs ?p \<noteq> None" by (simp add: example_photo_fs_simps)
  note inst = generate_final_photo_background [where p = ?p and fs = example_photo_fs,
      OF p ex, where env = ?env and st = example_stages and request = example_request
      and b = "Some example_background" and d = "draw_background example_stages"]
  from inst have same: "generate_final ?env example_stages example_photo_fs
         (example_request\<lparr>req_background := Some example_background\<rparr>) (Some ?p)
       = generate_final ?env example_stages example_photo_fs example_request (Some ?p)"
    by (rule conjunct1)
  have other: "generate_final
                 (?env\<lparr>env_uuid_hex := ''fedcba9876543210fedcba9876543210'',
                        env_timestamp := ''20240202_130000''\<rparr>)
                 example_stages example_photo_fs
                 (example_request\<lparr>req_background := Some example_background\<rparr>) (Some ?p)
               = (Inr (?png', ?pdf'),
                  example_photo_fs(?png' \<mapsto> Png_file example_photo_image 300,
                                   ?pdf' \<mapsto> Pdf_file example_photo_image 300))"
    using other_call_run by (simp only: other_call_env_def)
  from inst [THEN conjunct2, THEN conjunct2, THEN conjunct1, rule_format,
      OF conjI [OF example_photo_run other]]
  obtain im where
    "(example_photo_fs(?png \<mapsto> Png_file example_photo_image 300,
                       ?pdf \<mapsto> Pdf_file example_photo_image 300)) ?png
       = Some (Png_file im (FINAL_DPI (env_settings ?env)))"
    "(example_photo_fs(?png' \<mapsto> Png_file example_photo_image 300,
                       ?pdf' \<mapsto> Pdf_file example_photo_image 300)) ?png'
       = Some (Png_file im (FINAL_DPI (env_settings ?env)))"
    by blast
  then have pixels: "\<exists>im. snd (generate_final ?env example_stages example_photo_fs
                   example_request (Some ?p)) ?png = Some (Png_file im 300)
          \<and> snd (generate_final other_call_env example_stages example_photo_fs
                   (example_request\<lparr>req_background := Some example_background\<rparr>) (Some ?p))
               ?png' = Some (Png_file im 300)"
    by (simp add: example_photo_run other_call_run example_env_fields default_settings_fields)
  have sizes: "bleed_px_final (env_settings ?env) = Inr 35"
    "bookmark_size_px_final (env_settings ?env) = Inr (708, 2125)"
    by (simp_all add: example_env_fields bleed_px_final_default bookmark_size_px_final_default)
  note pasted = inst [THEN conjunct2, THEN conjunct2, THEN conjunct2, THEN conjunct1, rule_format,
      OF conjI [OF example_photo_run conjI [OF sizes(1) conjI [OF sizes(2)
        conjI [OF example_photo_fs_simps(2) example_fit]]]]]
  then have saved: "snd (generate_final ?env example_stages example_photo_fs
            example_request (Some ?p)) ?png
       = Some (Png_file
                 (Paste (New (778, 2195) ''#F5F5DC'')
                    (Draw (Paste (Crop (New (778, 2195) ''#F5F5DC'') (35, 35, 743, 2160))
                             ?fitted (0, 0))
                       [])
                    (35, 35))
                 300)"
    by (simp add: example_photo_run example_photo_image_def)
  from p ex same pixels saved example_fit example_photo_run other_call_run
  show ?thesis by simp
qed

text \<open>
  An existing file that Pillow cannot decode: the call returns and the image it saves has
  no photo pasted; the content keeps the base colour.
\<close>

theorem generate_final_photo_background_counterexample:
  "[''uploads/photo.jpg'' \<mapsto> Other_file] ''uploads/photo.jpg'' = Some Other_file
   \<and> fst (generate_final (example_env (\<lambda>path. True)) example_stages
            [''uploads/photo.jpg'' \<mapsto> Other_file] example_request (Some ''uploads/photo.jpg''))
       = Inr (''downloads/bookmark_20240101_120000_0123456789ab.png'',
              ''downloads/bookmark_20240101_120000_0123456789ab.pdf'')
   \<and> snd (generate_final (example_env (\<lambda>path. True)) example_stages
            [''uploads/photo.jpg'' \<mapsto> Other_file] example_request (Some ''uploads/photo.jpg''))
         ''downloads/bookmark_20240101_120000_0123456789ab.png''
       = Some (Png_file
                 (Paste (New (778, 2195) ''#F5F5DC'')
                    (Draw (Crop (New (778, 2195) ''#F5F5DC'') (35, 35, 743, 2160)) [])
                    (35, 35))
                 300)"
proof -
  have "generate_final_image (example_env (\<lambda>path. True)) example_stages
          [''uploads/photo.jpg'' \<mapsto> Other_file] example_request (Some ''uploads/photo.jpg'')
        = Inr (Paste (New (778, 2195) ''#F5F5DC'')
                 (Draw (Crop (New (778, 2195) ''#F5F5DC'') (35, 35, 743, 2160)) [])
                 (35, 35),
               [(ERROR, Photo_background_error UnidentifiedImageError)])"
    by (simp add: generate_final_image_def generate_final_background_def Image_open_def
        example_env_fields example_stages_fields example_request_fields
        bookmark_size_px_final_default bleed_px_final_default safe_margin_px_final_default
        py_index_def Image_new_def valid_hex_color_examples crop_def Let_def)
  then show ?thesis
    by (simp add: generate_final_def save_cases example_paths example_env_fields
        default_settings_fields)
qed

end
